theory Spec2Isabelle
  imports Main "HOL-Library.Word"
begin

unbundle bit_operations_syntax

section \<open>Errors\<close>

text \<open>
  Every error object the sources return or throw is a constructor here. The names are
  those of the TypeScript constants. \<open>NotImplemented\<close> is the
  \<^verbatim>\<open>new Error('TODO: Not Implemented')\<close> thrown by \<^verbatim>\<open>step\<close>,
  \<open>JsTypeError\<close> the TypeError the JavaScript runtime throws when a method is called on
  \<^verbatim>\<open>undefined\<close>. The last five are the errors of the word arithmetic and of the
  address computation, whose modules are not among the sources; their names are the
  specification's.
\<close>

datatype error =
    FeltError
  | NumberConversionError
  | SegmentError
  | WriteOnceError
  | UnknownAddressError
  | HighBitSetError
  | InvalidOp1Src
  | InvalidPcUpdate
  | InvalidResultLogic
  | InvalidOpcode
  | InvalidApUpdate
  | EndOfInstructionsError
  | InstructionError
  | UnconstrainedResError
  | DiffAssertValuesError
  | InvalidOperand0
  | InvalidDstOperand
  | NotImplemented
  | JsTypeError
  | OffsetUnderflow
  | SegmentMismatch
  | TypeMismatch
  | DivisionByZero
  | Op1ImmediateOffsetError

section \<open>Objects, field elements, relocatables\<close>

text \<open>
  A JavaScript object has an identity. The operators \<^verbatim>\<open>===\<close> and \<^verbatim>\<open>!==\<close> on
  objects and the key lookup of \<^verbatim>\<open>Map\<close> compare references, not contents, and the
  sources use all three. Every object of the model therefore carries its reference
  \<open>ref\<close>; two records with one \<open>ref\<close> stand for one object.
\<close>

record Object =
  ref :: nat

text \<open>\<^verbatim>\<open>class Felt { private inner: bigint; static PRIME: bigint = 0x8000...01n }\<close>\<close>

record Felt = Object +
  inner :: int

definition PRIME :: int where
  "PRIME = 0x800000000000011000000000000000000000000000000000000000000000001"

text \<open>
  \<^verbatim>\<open>constructor(_inner)\<close>: throws \<^verbatim>\<open>FeltError\<close> when
  \<^verbatim>\<open>_inner < 0n || _inner > Felt.PRIME\<close>, stores \<^verbatim>\<open>_inner\<close> otherwise.
  The first argument is the reference of the object under construction.
\<close>

definition Felt_new :: "nat \<Rightarrow> int \<Rightarrow> error + Felt" where
  "Felt_new r i =
     (if i < 0 \<or> i > PRIME then Inl FeltError
      else Inr \<lparr>ref = r, inner = i\<rparr>)"

text \<open>
  The remainder \<^verbatim>\<open>%\<close> of JavaScript's bigint truncates towards zero: its sign is
  that of the dividend.
\<close>

definition js_rem :: "int \<Rightarrow> int \<Rightarrow> int" where
  "js_rem a b = sgn a * (\<bar>a\<bar> mod \<bar>b\<bar>)"

text \<open>\<^verbatim>\<open>add(other) { return new Felt((this.inner + other.inner) % Felt.PRIME) }\<close>\<close>

definition Felt_add :: "nat \<Rightarrow> Felt \<Rightarrow> Felt \<Rightarrow> error + Felt" where
  "Felt_add r this other = Felt_new r (js_rem (inner this + inner other) PRIME)"

text \<open>
  \<^verbatim>\<open>sub(other)\<close>: the difference, plus \<^verbatim>\<open>PRIME\<close> when it is negative.
\<close>

definition Felt_sub :: "nat \<Rightarrow> Felt \<Rightarrow> Felt \<Rightarrow> error + Felt" where
  "Felt_sub r this other =
     (let result = inner this - inner other;
          result = (if result < 0 then result + PRIME else result)
      in Felt_new r result)"

text \<open>\<^verbatim>\<open>eq(other) { return this.inner == other.inner }\<close>\<close>

definition Felt_eq :: "Felt \<Rightarrow> Felt \<Rightarrow> bool" where
  "Felt_eq this other \<longleftrightarrow> inner this = inner other"

text \<open>
  Modelled from the spec: \<^verbatim>\<open>UnsignedInteger.toUint64\<close> of \<^verbatim>\<open>primitives/uint\<close>,
  which the sources import and do not contain. The conversion succeeds iff the element
  fits in 64 bits; \<^verbatim>\<open>NumberConversionError\<close> is the error \<^verbatim>\<open>felt.ts\<close> imports
  from that module.
\<close>

definition toUint64 :: "Felt \<Rightarrow> error + 64 word" where
  "toUint64 this =
     (if 0 \<le> inner this \<and> inner this < 2 ^ 64 then Inr (word_of_int (inner this))
      else Inl NumberConversionError)"

text \<open>
  Modelled from the spec: the class \<^verbatim>\<open>Relocatable\<close> of
  \<^verbatim>\<open>primitives/relocatable\<close>, a segmented address (segment index, offset), and
  \<^verbatim>\<open>MaybeRelocatable\<close>, a word: a field element or a relocatable.
\<close>

record Relocatable = Object +
  segmentIndex :: nat
  offset :: nat

datatype MaybeRelocatable = FeltW Felt | RelocW Relocatable

text \<open>The reference of a word, for \<^verbatim>\<open>===\<close> and \<^verbatim>\<open>!==\<close>.\<close>

fun ref_of :: "MaybeRelocatable \<Rightarrow> nat" where
  "ref_of (FeltW f) = ref f"
| "ref_of (RelocW a) = ref a"

section \<open>Memory\<close>

text \<open>
  \<^verbatim>\<open>class Memory { data: Map<Relocatable, MaybeRelocatable>; private numSegments: Uint32 }\<close>.
  The keys of the \<^verbatim>\<open>Map\<close> are objects, which it looks up by reference: \<open>data\<close> maps
  the reference of the address object to the stored word.
\<close>

record Memory =
  data :: "nat \<rightharpoonup> MaybeRelocatable"
  numSegments :: nat

text \<open>\<^verbatim>\<open>new Memory()\<close>: an empty map and no segment.\<close>

definition Memory_new :: Memory where
  "Memory_new = \<lparr>data = Map.empty, numSegments = 0\<rparr>"

text \<open>
  \<^verbatim>\<open>incrementNumSegments()\<close>: one segment more. The conversion
  \<^verbatim>\<open>UnsignedInteger.toUint32\<close> around the sum is not among the sources; it leaves a
  count below \<open>2^32\<close> as it is.
\<close>

definition incrementNumSegments :: "Memory \<Rightarrow> Memory" where
  "incrementNumSegments m = m\<lparr>numSegments := numSegments m + 1\<rparr>"

text \<open>
  \<^verbatim>\<open>insert(address, value)\<close>: \<^verbatim>\<open>SegmentError\<close> when the segment index is not
  below \<^verbatim>\<open>numSegments\<close>, \<^verbatim>\<open>WriteOnceError\<close> when \<^verbatim>\<open>data.get(address)\<close> is
  not \<^verbatim>\<open>undefined\<close>, and otherwise the cell is set and \<^verbatim>\<open>Ok(true)\<close> returned:
  \<open>Inr\<close> of the updated memory. A failed insert leaves the memory as it was.
\<close>

definition Memory_insert ::
  "Relocatable \<Rightarrow> MaybeRelocatable \<Rightarrow> Memory \<Rightarrow> error + Memory" where
  "Memory_insert address v m =
     (if segmentIndex address \<ge> numSegments m then Inl SegmentError
      else if data m (ref address) \<noteq> None then Inl WriteOnceError
      else Inr (m\<lparr>data := (data m)(ref address \<mapsto> v)\<rparr>))"

text \<open>
  \<^verbatim>\<open>get(address)\<close>: \<^verbatim>\<open>Err(UnknownAddressError)\<close> when \<^verbatim>\<open>data.get(address)\<close>
  is \<^verbatim>\<open>undefined\<close>, \<^verbatim>\<open>Ok(value)\<close> otherwise.
\<close>

definition Memory_get :: "Relocatable \<Rightarrow> Memory \<Rightarrow> error + MaybeRelocatable" where
  "Memory_get address m =
     (case data m (ref address) of
        None \<Rightarrow> Inl UnknownAddressError
      | Some v \<Rightarrow> Inr v)"

section \<open>Instructions\<close>

text \<open>The enums of \<^verbatim>\<open>instruction.ts\<close>; a constructor is written with its enum, as in the source.\<close>

datatype RegisterFlag = AP | FP

datatype Op1Src = Op0 | Imm | FP | AP

datatype ResLogic = Op1 | Add | Mul | Unconstrained

datatype PcUpdate = Regular | Jump | JumpRel | Jnz

datatype ApUpdate = Regular | Add | Add1 | Add2

datatype FpUpdate = Regular | ApPlus2 | Dst

datatype Opcode = NoOp | Call | Ret | AssertEq

record Instruction =
  offDst :: int
  offOp0 :: int
  offOp1 :: int
  dstReg :: RegisterFlag
  op0Reg :: RegisterFlag
  op1Src :: Op1Src
  resLogic :: ResLogic
  pcUpdate :: PcUpdate
  apUpdate :: ApUpdate
  fpUpdate :: FpUpdate
  opcode :: Opcode

text \<open>\<^verbatim>\<open>size()\<close>: two words when the second operand is an immediate, else one.\<close>

definition Instruction_size :: "Instruction \<Rightarrow> nat" where
  "Instruction_size this = (if op1Src this = Op1Src.Imm then 2 else 1)"

text \<open>
  Modelled from the spec: \<^verbatim>\<open>SignedInteger16.fromBiased\<close> of \<^verbatim>\<open>primitives/int\<close>,
  which the sources import and do not contain: \<open>from_biased(u)\<close> returns \<open>u - 2^15\<close>.
\<close>

definition fromBiased :: "64 word \<Rightarrow> error + int" where
  "fromBiased u = Inr (uint u - 2 ^ 15)"

text \<open>
  The five \<^verbatim>\<open>switch\<close> statements of \<^verbatim>\<open>decodeInstruction\<close>, each on the number
  cut out of the flags; the \<^verbatim>\<open>default\<close> branch returns the error.
\<close>

definition switch_op1Src :: "64 word \<Rightarrow> error + Op1Src" where
  "switch_op1Src op1SrcNum =
     (if op1SrcNum = 0 then Inr Op1Src.Op0
      else if op1SrcNum = 1 then Inr Op1Src.Imm
      else if op1SrcNum = 2 then Inr Op1Src.FP
      else if op1SrcNum = 4 then Inr Op1Src.AP
      else Inl InvalidOp1Src)"

definition switch_pcUpdate :: "64 word \<Rightarrow> error + PcUpdate" where
  "switch_pcUpdate pcUpdateNum =
     (if pcUpdateNum = 0 then Inr PcUpdate.Regular
      else if pcUpdateNum = 1 then Inr PcUpdate.Jump
      else if pcUpdateNum = 2 then Inr PcUpdate.JumpRel
      else if pcUpdateNum = 4 then Inr PcUpdate.Jnz
      else Inl InvalidPcUpdate)"

definition switch_resLogic :: "64 word \<Rightarrow> PcUpdate \<Rightarrow> error + ResLogic" where
  "switch_resLogic resLogicNum pcUpd =
     (if resLogicNum = 0 then
        (if pcUpd = PcUpdate.Jnz then Inr ResLogic.Unconstrained else Inr ResLogic.Op1)
      else if resLogicNum = 1 then Inr ResLogic.Add
      else if resLogicNum = 2 then Inr ResLogic.Mul
      else Inl InvalidResultLogic)"

definition switch_opcode :: "64 word \<Rightarrow> error + Opcode" where
  "switch_opcode opcodeNum =
     (if opcodeNum = 0 then Inr Opcode.NoOp
      else if opcodeNum = 1 then Inr Opcode.Call
      else if opcodeNum = 2 then Inr Opcode.Ret
      else if opcodeNum = 4 then Inr Opcode.AssertEq
      else Inl InvalidOpcode)"

definition switch_apUpdate :: "64 word \<Rightarrow> Opcode \<Rightarrow> error + ApUpdate" where
  "switch_apUpdate apUpdateNum opc =
     (if apUpdateNum = 0 then
        (if opc = Opcode.Call then Inr ApUpdate.Add2 else Inr ApUpdate.Regular)
      else if apUpdateNum = 1 then Inr ApUpdate.Add
      else if apUpdateNum = 2 then Inr ApUpdate.Add1
      else Inl InvalidApUpdate)"

definition switch_fpUpdate :: "Opcode \<Rightarrow> FpUpdate" where
  "switch_fpUpdate opc =
     (case opc of
        Opcode.Call \<Rightarrow> FpUpdate.ApPlus2
      | Opcode.Ret \<Rightarrow> FpUpdate.Dst
      | _ \<Rightarrow> FpUpdate.Regular)"

text \<open>
  \<^verbatim>\<open>static decodeInstruction(encodedInstruction: Uint64): Result<Instruction>\<close>, with the
  masks and shifts of the source. On a value below \<open>2^64\<close> the bigint operators
  \<^verbatim>\<open>&\<close> and \<^verbatim>\<open>>>\<close> are \<open>AND\<close> and \<open>drop_bit\<close> of a 64-bit word. The source checks
  the switches in the order op1Src, pcUpdate, resLogic, opcode, apUpdate. A local variable named like a
  field of \<open>Instruction\<close> is written with a prime.
\<close>

definition decodeInstruction :: "64 word \<Rightarrow> error + Instruction" where
  "decodeInstruction encodedInstruction =
     (let highBit = push_bit 63 1;
          dstRegMask = 0x01; dstRegOff = 0;
          op0RegMask = 0x02; op0RegOff = 1;
          op1SrcMask = 0x1c; op1SrcOff = 2;
          resLogicMask = 0x60; resLogicOff = 5;
          pcUpdateMask = 0x0380; pcUpdateOff = 7;
          apUpdateMask = 0x0c00; apUpdateOff = 10;
          opcodeMask = 0x7000; opcodeOff = 12
      in
      if (highBit AND encodedInstruction) \<noteq> 0 then Inl HighBitSetError
      else
        let mask = 0xffff; shift = 16 in
        case fromBiased (encodedInstruction AND mask) of
          Inl dstError \<Rightarrow> Inl dstError
        | Inr offsetDst \<Rightarrow>
        let shiftedEncodedInstruction = drop_bit shift encodedInstruction in
        case fromBiased (shiftedEncodedInstruction AND mask) of
          Inl op0Error \<Rightarrow> Inl op0Error
        | Inr offsetOp0 \<Rightarrow>
        let shiftedEncodedInstruction = drop_bit shift shiftedEncodedInstruction in
        case fromBiased (shiftedEncodedInstruction AND mask) of
          Inl op1Error \<Rightarrow> Inl op1Error
        | Inr offsetOp1 \<Rightarrow>
        let flags = drop_bit shift shiftedEncodedInstruction;
            dstRegNum = drop_bit dstRegOff (flags AND dstRegMask);
            dstReg' = (if dstRegNum = 0 then RegisterFlag.AP else RegisterFlag.FP);
            op0RegNum = drop_bit op0RegOff (flags AND op0RegMask);
            op0Reg' = (if op0RegNum = 0 then RegisterFlag.AP else RegisterFlag.FP);
            op1SrcNum = drop_bit op1SrcOff (flags AND op1SrcMask)
        in
        case switch_op1Src op1SrcNum of
          Inl e \<Rightarrow> Inl e
        | Inr op1Src' \<Rightarrow>
        let pcUpdateNum = drop_bit pcUpdateOff (flags AND pcUpdateMask) in
        case switch_pcUpdate pcUpdateNum of
          Inl e \<Rightarrow> Inl e
        | Inr pcUpdate' \<Rightarrow>
        let resLogicNum = drop_bit resLogicOff (flags AND resLogicMask) in
        case switch_resLogic resLogicNum pcUpdate' of
          Inl e \<Rightarrow> Inl e
        | Inr resLogic' \<Rightarrow>
        let opcodeNum = drop_bit opcodeOff (flags AND opcodeMask) in
        case switch_opcode opcodeNum of
          Inl e \<Rightarrow> Inl e
        | Inr opcode' \<Rightarrow>
        let apUpdateNum = drop_bit apUpdateOff (flags AND apUpdateMask) in
        case switch_apUpdate apUpdateNum opcode' of
          Inl e \<Rightarrow> Inl e
        | Inr apUpdate' \<Rightarrow>
        let fpUpdate' = switch_fpUpdate opcode' in
        Inr \<lparr>offDst = offsetDst, offOp0 = offsetOp0, offOp1 = offsetOp1,
             dstReg = dstReg', op0Reg = op0Reg', op1Src = op1Src',
             resLogic = resLogic', pcUpdate = pcUpdate', apUpdate = apUpdate',
             fpUpdate = fpUpdate', opcode = opcode'\<rparr>)"

subsection \<open>The documented bit layout\<close>

text \<open>
  The layout of the encoding as the specification words it: a field is the number made of
  the bits \<open>lo\<close> to \<open>hi\<close> of the word, interpreted by the table of the layout.
  \<open>None\<close> is a value the table does not list. These definitions follow the
  specification, not the source; the decoder above is compared with them.
\<close>

definition bits :: "nat \<Rightarrow> nat \<Rightarrow> 64 word \<Rightarrow> 64 word" where
  "bits lo hi e = take_bit (hi + 1 - lo) (drop_bit lo e)"

definition layout_op1Src :: "64 word \<Rightarrow> Op1Src option" where
  "layout_op1Src e =
     (let v = bits 50 52 e in
      if v = 0 then Some Op1Src.Op0 else if v = 1 then Some Op1Src.Imm
      else if v = 2 then Some Op1Src.FP else if v = 4 then Some Op1Src.AP else None)"

definition layout_resLogic :: "64 word \<Rightarrow> PcUpdate \<Rightarrow> ResLogic option" where
  "layout_resLogic e pcu =
     (let v = bits 53 54 e in
      if v = 0 then Some (if pcu = PcUpdate.Jnz then ResLogic.Unconstrained else ResLogic.Op1)
      else if v = 1 then Some ResLogic.Add else if v = 2 then Some ResLogic.Mul else None)"

definition layout_pcUpdate :: "64 word \<Rightarrow> PcUpdate option" where
  "layout_pcUpdate e =
     (let v = bits 55 57 e in
      if v = 0 then Some PcUpdate.Regular else if v = 1 then Some PcUpdate.Jump
      else if v = 2 then Some PcUpdate.JumpRel else if v = 4 then Some PcUpdate.Jnz else None)"

definition layout_apUpdate :: "64 word \<Rightarrow> Opcode \<Rightarrow> ApUpdate option" where
  "layout_apUpdate e opc =
     (let v = bits 58 59 e in
      if v = 0 then Some (if opc = Opcode.Call then ApUpdate.Add2 else ApUpdate.Regular)
      else if v = 1 then Some ApUpdate.Add else if v = 2 then Some ApUpdate.Add1 else None)"

definition layout_opcode :: "64 word \<Rightarrow> Opcode option" where
  "layout_opcode e =
     (let v = bits 60 62 e in
      if v = 0 then Some Opcode.NoOp else if v = 1 then Some Opcode.Call
      else if v = 2 then Some Opcode.Ret else if v = 4 then Some Opcode.AssertEq else None)"

definition layout_fpUpdate :: "Opcode \<Rightarrow> FpUpdate" where
  "layout_fpUpdate opc =
     (if opc = Opcode.Call then FpUpdate.ApPlus2
      else if opc = Opcode.Ret then FpUpdate.Dst else FpUpdate.Regular)"

definition layout_offset :: "nat \<Rightarrow> nat \<Rightarrow> 64 word \<Rightarrow> int" where
  "layout_offset lo hi e = uint (bits lo hi e) - 2 ^ 15"

definition layout_reg :: "nat \<Rightarrow> 64 word \<Rightarrow> RegisterFlag" where
  "layout_reg b e = (if bit e b then RegisterFlag.FP else RegisterFlag.AP)"

section \<open>Word arithmetic and the run context\<close>

text \<open>
  Modelled from the spec: the arithmetic of \<^verbatim>\<open>primitives/relocatable\<close>, which the
  sources import and do not contain. A result is a new object; its reference is the first
  argument. \<^verbatim>\<open>Relocatable.add\<close> and \<^verbatim>\<open>Relocatable.sub\<close> of a number are offset
  arithmetic on the same segment, the subtraction failing with \<open>OffsetUnderflow\<close> when the
  offset would become negative.
\<close>

definition Relocatable_add :: "nat \<Rightarrow> Relocatable \<Rightarrow> nat \<Rightarrow> error + Relocatable" where
  "Relocatable_add r this n =
     Inr \<lparr>ref = r, segmentIndex = segmentIndex this, offset = offset this + n\<rparr>"

definition Relocatable_sub :: "nat \<Rightarrow> Relocatable \<Rightarrow> nat \<Rightarrow> error + Relocatable" where
  "Relocatable_sub r this n =
     (if offset this < n then Inl OffsetUnderflow
      else Inr \<lparr>ref = r, segmentIndex = segmentIndex this, offset = offset this - n\<rparr>)"

text \<open>
  Modelled from the spec: multiplication and division of field elements, which
  \<^verbatim>\<open>felt.ts\<close> does not have. The division multiplies by the modular inverse, the power
  \<open>p - 2\<close>, and fails with \<open>DivisionByZero\<close> on a zero divisor.
\<close>

definition Felt_mul :: "nat \<Rightarrow> Felt \<Rightarrow> Felt \<Rightarrow> error + Felt" where
  "Felt_mul r this other = Felt_new r ((inner this * inner other) mod PRIME)"

definition Felt_div :: "nat \<Rightarrow> Felt \<Rightarrow> Felt \<Rightarrow> error + Felt" where
  "Felt_div r this other =
     (if inner other mod PRIME = 0 then Inl DivisionByZero
      else Felt_new r ((inner this * (inner other ^ nat (PRIME - 2) mod PRIME)) mod PRIME))"

text \<open>
  Modelled from the spec: \<^verbatim>\<open>add\<close>, \<^verbatim>\<open>sub\<close>, \<^verbatim>\<open>mul\<close>, \<^verbatim>\<open>div\<close> and
  \<^verbatim>\<open>eq\<close> of a word, dispatching on the variants. Field with field is field arithmetic
  (\<^verbatim>\<open>Felt.add\<close> and \<^verbatim>\<open>Felt.sub\<close> are those of \<^verbatim>\<open>felt.ts\<close>); relocatable plus
  or minus field is offset arithmetic; relocatable minus relocatable is the difference of
  the offsets and needs one segment; every other combination is an error.
\<close>

fun word_add :: "nat \<Rightarrow> MaybeRelocatable \<Rightarrow> MaybeRelocatable \<Rightarrow> error + MaybeRelocatable" where
  "word_add r (FeltW a) (FeltW b) = map_sum id FeltW (Felt_add r a b)"
| "word_add r (RelocW a) (FeltW b) = map_sum id RelocW (Relocatable_add r a (nat (inner b)))"
| "word_add r (FeltW a) (RelocW b) = Inl TypeMismatch"
| "word_add r (RelocW a) (RelocW b) = Inl TypeMismatch"

fun word_sub :: "nat \<Rightarrow> MaybeRelocatable \<Rightarrow> MaybeRelocatable \<Rightarrow> error + MaybeRelocatable" where
  "word_sub r (FeltW a) (FeltW b) = map_sum id FeltW (Felt_sub r a b)"
| "word_sub r (RelocW a) (FeltW b) = map_sum id RelocW (Relocatable_sub r a (nat (inner b)))"
| "word_sub r (RelocW a) (RelocW b) =
     (if segmentIndex a \<noteq> segmentIndex b then Inl SegmentMismatch
      else if offset a < offset b then Inl OffsetUnderflow
      else map_sum id FeltW (Felt_new r (int (offset a - offset b))))"
| "word_sub r (FeltW a) (RelocW b) = Inl TypeMismatch"

fun word_mul :: "nat \<Rightarrow> MaybeRelocatable \<Rightarrow> MaybeRelocatable \<Rightarrow> error + MaybeRelocatable" where
  "word_mul r (FeltW a) (FeltW b) = map_sum id FeltW (Felt_mul r a b)"
| "word_mul r (RelocW a) b = Inl TypeMismatch"
| "word_mul r a (RelocW b) = Inl TypeMismatch"

fun word_div :: "nat \<Rightarrow> MaybeRelocatable \<Rightarrow> MaybeRelocatable \<Rightarrow> error + MaybeRelocatable" where
  "word_div r (FeltW a) (FeltW b) = map_sum id FeltW (Felt_div r a b)"
| "word_div r (RelocW a) b = Inl TypeMismatch"
| "word_div r a (RelocW b) = Inl TypeMismatch"

fun word_eq :: "MaybeRelocatable \<Rightarrow> MaybeRelocatable \<Rightarrow> bool" where
  "word_eq (FeltW a) (FeltW b) = Felt_eq a b"
| "word_eq (RelocW a) (RelocW b) =
     (segmentIndex a = segmentIndex b \<and> offset a = offset b)"
| "word_eq (FeltW a) (RelocW b) = False"
| "word_eq (RelocW a) (FeltW b) = False"

text \<open>
  The operator \<^verbatim>\<open>===\<close> on two values that are an object or \<^verbatim>\<open>undefined\<close>:
  \<^verbatim>\<open>undefined\<close> equals itself only, and two objects are equal when they are one
  object.
\<close>

fun strict_eq :: "MaybeRelocatable option \<Rightarrow> MaybeRelocatable option \<Rightarrow> bool" where
  "strict_eq None None = True"
| "strict_eq (Some a) (Some b) = (ref_of a = ref_of b)"
| "strict_eq None (Some b) = False"
| "strict_eq (Some a) None = False"

text \<open>
  \<^verbatim>\<open>class RunContext { private pc: ProgramCounter; private ap: MemoryPointer;
  private fp: MemoryPointer }\<close>, with the getters \<^verbatim>\<open>getPc\<close> and \<^verbatim>\<open>getFp\<close> as the
  field selectors.
\<close>

record RunContext =
  pc :: Relocatable
  ap :: Relocatable
  fp :: Relocatable

text \<open>
  Modelled from the spec: \<^verbatim>\<open>RunContext.computeAddress\<close> and
  \<^verbatim>\<open>RunContext.computeOp1Address\<close>, which \<^verbatim>\<open>VirtualMachine\<close> calls and
  \<^verbatim>\<open>runContext.ts\<close> does not have. \<open>applyOffset\<close> is the base plus or minus the
  absolute value of a signed offset. \<open>computeAddress\<close> takes \<open>ap\<close> or \<open>fp\<close> as the
  base. For \<open>computeOp1Address\<close> the base is the value of op0, which must be a
  relocatable (else \<open>TypeMismatch\<close>), or \<open>pc\<close> for an immediate, which requires the
  offset 1, or \<open>fp\<close>, or \<open>ap\<close>. The specification names no error for an immediate with
  another offset; it is \<open>Op1ImmediateOffsetError\<close> here. The first argument is the
  reference of the address object returned.
\<close>

definition applyOffset :: "nat \<Rightarrow> Relocatable \<Rightarrow> int \<Rightarrow> error + Relocatable" where
  "applyOffset r base off =
     (if off < 0 then Relocatable_sub r base (nat (- off))
      else Relocatable_add r base (nat off))"

definition computeAddress ::
  "nat \<Rightarrow> RunContext \<Rightarrow> RegisterFlag \<Rightarrow> int \<Rightarrow> error + Relocatable" where
  "computeAddress r this reg off =
     (case reg of
        RegisterFlag.AP \<Rightarrow> applyOffset r (ap this) off
      | RegisterFlag.FP \<Rightarrow> applyOffset r (fp this) off)"

definition computeOp1Address ::
  "nat \<Rightarrow> RunContext \<Rightarrow> Op1Src \<Rightarrow> int \<Rightarrow> MaybeRelocatable option \<Rightarrow> error + Relocatable"
  where
  "computeOp1Address r this src off op0' =
     (case src of
        Op1Src.Op0 \<Rightarrow>
          (case op0' of
             Some (RelocW base) \<Rightarrow> applyOffset r base off
           | _ \<Rightarrow> Inl TypeMismatch)
      | Op1Src.Imm \<Rightarrow>
          (if off = 1 then applyOffset r (pc this) off else Inl Op1ImmediateOffsetError)
      | Op1Src.FP \<Rightarrow> applyOffset r (fp this) off
      | Op1Src.AP \<Rightarrow> applyOffset r (ap this) off)"

section \<open>The virtual machine\<close>

text \<open>
  \<^verbatim>\<open>type Operands = { op0, op1, res, dst: MaybeRelocatable | undefined }\<close>.
\<close>

record Operands =
  op0 :: "MaybeRelocatable option"
  op1 :: "MaybeRelocatable option"
  res :: "MaybeRelocatable option"
  dst :: "MaybeRelocatable option"

text \<open>
  \<^verbatim>\<open>class VirtualMachine { private runContext; private currentStep: Uint64;
  private segments: MemorySegmentManager }\<close>. The class \<^verbatim>\<open>MemorySegmentManager\<close> is
  not among the sources; the machine uses its \<^verbatim>\<open>memory\<close> only, which is the field
  \<open>segments\<close> here. \<open>nextRef\<close> is the state of the JavaScript heap: the reference the
  next \<^verbatim>\<open>new\<close> object receives.
\<close>

record VirtualMachine =
  runContext :: RunContext
  currentStep :: "64 word"
  segments :: Memory
  nextRef :: nat

text \<open>
  Modelled from the spec: the read \<^verbatim>\<open>this.segments.memory.get(address)\<close> as the
  machine uses it, with a result that is a word or \<^verbatim>\<open>undefined\<close>: the stored word,
  or \<open>None\<close> for an empty cell. It is \<^verbatim>\<open>Memory.get\<close> with its error read as
  \<^verbatim>\<open>undefined\<close>.
\<close>

definition segments_memory_get :: "Relocatable \<Rightarrow> Memory \<Rightarrow> MaybeRelocatable option" where
  "segments_memory_get address m =
     (case Memory_get address m of Inl e \<Rightarrow> None | Inr v \<Rightarrow> Some v)"

text \<open>
  The statement \<^verbatim>\<open>if (deduced !== undefined) { this.segments.memory.insert(addr, deduced) }\<close>
  of \<^verbatim>\<open>computeOperands\<close>: the result of \<^verbatim>\<open>insert\<close> is dropped, so the memory is
  the updated one when the insert succeeds and the old one when it fails.
\<close>

definition insert_deduced :: "Relocatable \<Rightarrow> MaybeRelocatable option \<Rightarrow> Memory \<Rightarrow> Memory" where
  "insert_deduced addr deduced m =
     (case deduced of
        None \<Rightarrow> m
      | Some v \<Rightarrow> (case Memory_insert addr v m of Inl e \<Rightarrow> m | Inr m' \<Rightarrow> m'))"

text \<open>
  \<^verbatim>\<open>deduceOp0(instruction, dst, op1)\<close>. In the inner \<^verbatim>\<open>switch\<close> the case
  \<^verbatim>\<open>ResLogic.Add\<close> has no \<^verbatim>\<open>break\<close>: when \<^verbatim>\<open>dst\<close> or \<^verbatim>\<open>op1\<close> is undefined
  it falls through into the case \<^verbatim>\<open>ResLogic.Mul\<close>, here \<open>caseMul\<close>. An error of
  \<^verbatim>\<open>dst.div(op1)\<close>, whichever it is, gives the value \<^verbatim>\<open>[undefined, undefined]\<close>.
\<close>

definition deduceOp0 ::
  "nat \<Rightarrow> RunContext \<Rightarrow> Instruction \<Rightarrow> MaybeRelocatable option \<Rightarrow> MaybeRelocatable option
   \<Rightarrow> error + (MaybeRelocatable option \<times> MaybeRelocatable option)" where
  "deduceOp0 r rc instruction dst' op1' =
     (case opcode instruction of
        Opcode.Call \<Rightarrow>
          (case Relocatable_add r (pc rc) (Instruction_size instruction) of
             Inl e \<Rightarrow> Inl e
           | Inr v \<Rightarrow> Inr (Some (RelocW v), None))
      | Opcode.AssertEq \<Rightarrow>
          (let caseMul =
                 (case (dst', op1') of
                    (Some d, Some o1) \<Rightarrow>
                      (case word_div r d o1 of
                         Inl e \<Rightarrow> Inr (None, None)
                       | Inr v \<Rightarrow> Inr (Some v, dst'))
                  | _ \<Rightarrow> Inr (None, None))
           in
           case resLogic instruction of
             ResLogic.Add \<Rightarrow>
               (case (dst', op1') of
                  (Some d, Some o1) \<Rightarrow>
                    (case word_sub r d o1 of
                       Inl e \<Rightarrow> Inl e
                     | Inr v \<Rightarrow> Inr (Some v, dst'))
                | _ \<Rightarrow> caseMul)
           | ResLogic.Mul \<Rightarrow> caseMul
           | _ \<Rightarrow> Inr (None, None))
      | _ \<Rightarrow> Inr (None, None))"

text \<open>\<^verbatim>\<open>deduceOp1(instruction, dst, op0)\<close>.\<close>

definition deduceOp1 ::
  "nat \<Rightarrow> Instruction \<Rightarrow> MaybeRelocatable option \<Rightarrow> MaybeRelocatable option
   \<Rightarrow> error + (MaybeRelocatable option \<times> MaybeRelocatable option)" where
  "deduceOp1 r instruction dst' op0' =
     (if opcode instruction = Opcode.AssertEq then
        (case resLogic instruction of
           ResLogic.Op1 \<Rightarrow> Inr (dst', dst')
         | ResLogic.Add \<Rightarrow>
             (case (dst', op0') of
                (Some d, Some o0) \<Rightarrow>
                  (case word_sub r d o0 of
                     Inl e \<Rightarrow> Inl e
                   | Inr v \<Rightarrow> Inr (Some v, dst'))
              | _ \<Rightarrow> Inr (None, None))
         | ResLogic.Mul \<Rightarrow>
             (case (dst', op0') of
                (Some d, Some o0) \<Rightarrow>
                  (case word_div r d o0 of
                     Inl e \<Rightarrow> Inr (None, None)
                   | Inr v \<Rightarrow> Inr (Some v, dst'))
              | _ \<Rightarrow> Inr (None, None))
         | ResLogic.Unconstrained \<Rightarrow> Inr (None, None))
      else Inr (None, None))"

text \<open>
  \<^verbatim>\<open>computeRes(instruction, op0, op1)\<close>. The parameters are typed
  \<^verbatim>\<open>MaybeRelocatable\<close>, but \<^verbatim>\<open>computeOperands\<close> passes \<^verbatim>\<open>op0 as MaybeRelocatable\<close>
  and \<^verbatim>\<open>op1 as MaybeRelocatable\<close>, casts that check nothing at run time, so either can
  be \<^verbatim>\<open>undefined\<close>. The calls \<^verbatim>\<open>op0.add(op1)\<close> and \<^verbatim>\<open>op0.mul(op1)\<close> on an
  undefined \<^verbatim>\<open>op0\<close> throw a TypeError. With \<^verbatim>\<open>op0\<close> defined and \<^verbatim>\<open>op1\<close>
  undefined the call reaches the word arithmetic, which the specification defines on words
  only; the model lets it fail in the same way.
\<close>

definition computeRes ::
  "nat \<Rightarrow> Instruction \<Rightarrow> MaybeRelocatable option \<Rightarrow> MaybeRelocatable option
   \<Rightarrow> error + MaybeRelocatable option" where
  "computeRes r instruction op0' op1' =
     (case resLogic instruction of
        ResLogic.Op1 \<Rightarrow> Inr op1'
      | ResLogic.Add \<Rightarrow>
          (case (op0', op1') of
             (Some a, Some b) \<Rightarrow> map_sum id Some (word_add r a b)
           | _ \<Rightarrow> Inl JsTypeError)
      | ResLogic.Mul \<Rightarrow>
          (case (op0', op1') of
             (Some a, Some b) \<Rightarrow> map_sum id Some (word_mul r a b)
           | _ \<Rightarrow> Inl JsTypeError)
      | ResLogic.Unconstrained \<Rightarrow> Inr None)"

text \<open>\<^verbatim>\<open>deduceDst(instruction, res)\<close>.\<close>

definition deduceDst ::
  "RunContext \<Rightarrow> Instruction \<Rightarrow> MaybeRelocatable option \<Rightarrow> error + MaybeRelocatable option"
  where
  "deduceDst rc instruction res' =
     (case opcode instruction of
        Opcode.AssertEq \<Rightarrow> Inr res'
      | Opcode.Call \<Rightarrow> Inr (Some (RelocW (fp rc)))
      | _ \<Rightarrow> Inr None)"

text \<open>
  The four \<^verbatim>\<open>if\<close> blocks of \<^verbatim>\<open>computeOperands\<close>, each with the memory and the
  local variable it changes as its result, or the error it returns.

  The block \<^verbatim>\<open>if (op0 === undefined)\<close> keeps the deduced result in \<^verbatim>\<open>res\<close> and
  writes the deduced operand to memory; it does not assign the local \<^verbatim>\<open>op0\<close>.
\<close>

definition computeOperands_op0 ::
  "nat \<Rightarrow> RunContext \<Rightarrow> Instruction \<Rightarrow> MaybeRelocatable option \<Rightarrow> MaybeRelocatable option
   \<Rightarrow> MaybeRelocatable option \<Rightarrow> Relocatable \<Rightarrow> Memory
   \<Rightarrow> error + (Memory \<times> MaybeRelocatable option)" where
  "computeOperands_op0 r rc instruction dst0 op0' op1' op0Addr mem =
     (if op0' = None then
        (case deduceOp0 r rc instruction dst0 op1' of
           Inl deducedOp0Error \<Rightarrow> Inl deducedOp0Error
         | Inr (deducedOp0, deducedRes) \<Rightarrow>
             Inr (insert_deduced op0Addr deducedOp0 mem, deducedRes))
      else Inr (mem, None))"

text \<open>
  The block \<^verbatim>\<open>if (op1 === undefined)\<close>: the deduced result is adopted when
  \<^verbatim>\<open>res\<close> is still undefined; the local \<^verbatim>\<open>op1\<close> is not assigned.
\<close>

definition computeOperands_op1 ::
  "nat \<Rightarrow> Instruction \<Rightarrow> MaybeRelocatable option \<Rightarrow> MaybeRelocatable option
   \<Rightarrow> MaybeRelocatable option \<Rightarrow> Relocatable \<Rightarrow> Memory \<Rightarrow> MaybeRelocatable option
   \<Rightarrow> error + (Memory \<times> MaybeRelocatable option)" where
  "computeOperands_op1 r instruction dst0 op0' op1' op1Addr mem res1 =
     (if op1' = None then
        (case deduceOp1 r instruction dst0 op0' of
           Inl deducedOp1Error \<Rightarrow> Inl deducedOp1Error
         | Inr (deducedOp1, deducedRes) \<Rightarrow>
             Inr (insert_deduced op1Addr deducedOp1 mem,
                  if res1 = None then deducedRes else res1))
      else Inr (mem, res1))"

text \<open>
  The block \<^verbatim>\<open>if (res === undefined)\<close>: its only guard is on \<^verbatim>\<open>res\<close>; the
  operands go to \<^verbatim>\<open>computeRes\<close> as they are.
\<close>

definition computeOperands_res ::
  "nat \<Rightarrow> Instruction \<Rightarrow> MaybeRelocatable option \<Rightarrow> MaybeRelocatable option
   \<Rightarrow> MaybeRelocatable option \<Rightarrow> error + MaybeRelocatable option" where
  "computeOperands_res r instruction op0' op1' res2 =
     (if res2 = None then computeRes r instruction op0' op1' else Inr res2)"

text \<open>The block \<^verbatim>\<open>if (dst === undefined)\<close>, which ends with \<^verbatim>\<open>dst = deducedDst\<close>.\<close>

definition computeOperands_dst ::
  "RunContext \<Rightarrow> Instruction \<Rightarrow> MaybeRelocatable option \<Rightarrow> Relocatable \<Rightarrow> Memory
   \<Rightarrow> MaybeRelocatable option \<Rightarrow> error + (Memory \<times> MaybeRelocatable option)" where
  "computeOperands_dst rc instruction dst0 dstAddr mem res3 =
     (if dst0 = None then
        (case deduceDst rc instruction res3 of
           Inl deducedDstError \<Rightarrow> Inl deducedDstError
         | Inr deducedDst \<Rightarrow> Inr (insert_deduced dstAddr deducedDst mem, deducedDst))
      else Inr (mem, dst0))"

text \<open>
  \<^verbatim>\<open>computeOperands(instruction): Result<Operands>\<close>, returned together with the
  machine it leaves behind: the write-backs done before a failure stay in memory. The
  three cells are read first; the four blocks follow in the order of the source. The
  objects the call creates take the references \<open>nextRef\<close> to \<open>nextRef + 5\<close>: the three
  addresses, then the results of \<^verbatim>\<open>deduceOp0\<close>, \<^verbatim>\<open>deduceOp1\<close> and
  \<^verbatim>\<open>computeRes\<close>.
\<close>

definition computeOperands ::
  "Instruction \<Rightarrow> VirtualMachine \<Rightarrow> (error + Operands) \<times> VirtualMachine" where
  "computeOperands instruction vm0 =
     (let r = nextRef vm0;
          vm = vm0\<lparr>nextRef := r + 6\<rparr>;
          rc = runContext vm;
          mem = segments vm
      in
      case computeAddress r rc (dstReg instruction) (offDst instruction) of
        Inl dstError \<Rightarrow> (Inl dstError, vm)
      | Inr dstAddr \<Rightarrow>
      let dst0 = segments_memory_get dstAddr mem in
      case computeAddress (r + 1) rc (op0Reg instruction) (offOp0 instruction) of
        Inl op0Error \<Rightarrow> (Inl op0Error, vm)
      | Inr op0Addr \<Rightarrow>
      let op0' = segments_memory_get op0Addr mem in
      case computeOp1Address (r + 2) rc (op1Src instruction) (offOp1 instruction) op0' of
        Inl op1Error \<Rightarrow> (Inl op1Error, vm)
      | Inr op1Addr \<Rightarrow>
      let op1' = segments_memory_get op1Addr mem in
      case computeOperands_op0 (r + 3) rc instruction dst0 op0' op1' op0Addr mem of
        Inl deducedOp0Error \<Rightarrow> (Inl deducedOp0Error, vm)
      | Inr (mem1, res1) \<Rightarrow>
      case computeOperands_op1 (r + 4) instruction dst0 op0' op1' op1Addr mem1 res1 of
        Inl deducedOp1Error \<Rightarrow> (Inl deducedOp1Error, vm\<lparr>segments := mem1\<rparr>)
      | Inr (mem2, res2) \<Rightarrow>
      case computeOperands_res (r + 5) instruction op0' op1' res2 of
        Inl computedResError \<Rightarrow> (Inl computedResError, vm\<lparr>segments := mem2\<rparr>)
      | Inr res3 \<Rightarrow>
      case computeOperands_dst rc instruction dst0 dstAddr mem2 res3 of
        Inl deducedDstError \<Rightarrow> (Inl deducedDstError, vm\<lparr>segments := mem2\<rparr>)
      | Inr (mem3, dst1) \<Rightarrow>
          (Inr \<lparr>op0 = op0', op1 = op1', res = res3, dst = dst1\<rparr>,
           vm\<lparr>segments := mem3\<rparr>))"

text \<open>
  \<^verbatim>\<open>opcodeAssertion(instruction, operands): Result<void>\<close>. For \<^verbatim>\<open>AssertEq\<close> the
  test is \<^verbatim>\<open>operands.dst !== operands.res\<close>, for \<^verbatim>\<open>Call\<close> it is
  \<^verbatim>\<open>returnPc.eq(operands.op0)\<close> for op0 and \<^verbatim>\<open>fp !== operands.dst\<close> for dst.
\<close>

definition opcodeAssertion :: "Instruction \<Rightarrow> Operands \<Rightarrow> VirtualMachine \<Rightarrow> error + unit" where
  "opcodeAssertion instruction operands vm =
     (case opcode instruction of
        Opcode.AssertEq \<Rightarrow>
          (if res operands = None then Inl UnconstrainedResError
           else if \<not> strict_eq (dst operands) (res operands) then Inl DiffAssertValuesError
           else Inr ())
      | Opcode.Call \<Rightarrow>
          (case Relocatable_add (nextRef vm) (pc (runContext vm))
                  (Instruction_size instruction) of
             Inl returnPcError \<Rightarrow> Inl returnPcError
           | Inr returnPc \<Rightarrow>
               (case op0 operands of
                  None \<Rightarrow> Inl InvalidOperand0
                | Some o0 \<Rightarrow>
                    if \<not> word_eq (RelocW returnPc) o0 then Inl InvalidOperand0
                    else if \<not> strict_eq (Some (RelocW (fp (runContext vm)))) (dst operands)
                    then Inl InvalidDstOperand
                    else Inr ()))
      | _ \<Rightarrow> Inr ())"

text \<open>
  \<^verbatim>\<open>step(): void\<close>. A \<^verbatim>\<open>throw\<close> is \<open>Inl\<close>; a normal return would be \<open>Inr\<close> of
  the machine after the step. The decoded instruction is not used: after decoding, the
  method ends with \<^verbatim>\<open>throw new Error('TODO: Not Implemented')\<close>.
\<close>

definition step :: "VirtualMachine \<Rightarrow> error + VirtualMachine" where
  "step vm =
     (case segments_memory_get (pc (runContext vm)) (segments vm) of
        None \<Rightarrow> Inl EndOfInstructionsError
      | Some encodedInstruction \<Rightarrow>
          (case encodedInstruction of
             RelocW a \<Rightarrow> Inl InstructionError
           | FeltW f \<Rightarrow>
               (case toUint64 f of
                  Inl e \<Rightarrow> Inl e
                | Inr encodedInstructionUint \<Rightarrow>
                    (let instruction = decodeInstruction encodedInstructionUint
                     in Inl NotImplemented))))"

section \<open>Initial objects and the machines of the examples\<close>

text \<open>\<^verbatim>\<open>static default(): Instruction\<close> of \<^verbatim>\<open>instruction.ts\<close>.\<close>

definition Instruction_default :: Instruction where
  "Instruction_default =
     \<lparr>offDst = 0, offOp0 = 0, offOp1 = 0, dstReg = RegisterFlag.AP, op0Reg = RegisterFlag.AP,
      op1Src = Op1Src.Op0, resLogic = ResLogic.Op1, pcUpdate = PcUpdate.Regular,
      apUpdate = ApUpdate.Regular, fpUpdate = FpUpdate.Regular, opcode = Opcode.NoOp\<rparr>"

text \<open>
  The instruction of the examples: the default instruction with op1 taken from \<open>ap\<close> and
  three different cells, dst at \<open>ap\<close>, op0 at \<open>ap + 1\<close> and op1 at \<open>ap + 2\<close>.
\<close>

definition example_instruction :: Instruction where
  "example_instruction = Instruction_default\<lparr>offOp0 := 1, offOp1 := 2, op1Src := Op1Src.AP\<rparr>"

text \<open>
  Modelled from the spec: the classes \<^verbatim>\<open>ProgramCounter\<close> and \<^verbatim>\<open>MemoryPointer\<close>,
  which are not among the sources: \<open>pc\<close> points into the program segment 0, \<open>ap\<close> and
  \<open>fp\<close> into the execution segment 1. With them, \<^verbatim>\<open>RunContext.default()\<close>, that is
  \<^verbatim>\<open>new RunContext(0, 0, 0)\<close>, is three new objects at offset 0.
\<close>

definition RunContext_default :: RunContext where
  "RunContext_default =
     \<lparr>pc = \<lparr>ref = 0, segmentIndex = 0, offset = 0\<rparr>,
      ap = \<lparr>ref = 1, segmentIndex = 1, offset = 0\<rparr>,
      fp = \<lparr>ref = 2, segmentIndex = 1, offset = 0\<rparr>\<rparr>"

text \<open>
  \<^verbatim>\<open>new VirtualMachine()\<close>: step 0, an empty memory without segments, the default
  run context.
\<close>

definition VirtualMachine_new :: VirtualMachine where
  "VirtualMachine_new =
     \<lparr>runContext = RunContext_default, currentStep = 0, segments = Memory_new, nextRef = 3\<rparr>"

text \<open>
  The encoded word of the first scenario of the specification: the offsets 0, 1 and 0 in
  their biased form \<open>0x8000\<close>, \<open>0x8001\<close>, \<open>0x8000\<close>, and the flags \<open>0x4011\<close>:
  dst_reg FP, op0_reg AP, op1_src AP, res_logic Op1, pc_update Regular, ap_update Regular,
  opcode AssertEq.
\<close>

definition scenario1_word :: "64 word" where
  "scenario1_word = 0x4011800080018000"

text \<open>
  The machine of the first scenario of the specification: \<open>pc = (0, 0)\<close>,
  \<open>ap = fp = (1, 0)\<close>, two segments, the encoded word \<open>scenario1_word\<close> stored under the
  key \<open>pc\<close> and \<open>Felt(7)\<close> under the key \<open>ap\<close>.
\<close>

definition scenario1_vm :: VirtualMachine where
  "scenario1_vm =
     \<lparr>runContext = RunContext_default, currentStep = 0,
      segments =
        \<lparr>data = [0 \<mapsto> FeltW \<lparr>ref = 3, inner = 0x4011800080018000\<rparr>,
                 1 \<mapsto> FeltW \<lparr>ref = 4, inner = 7\<rparr>],
         numSegments = 2\<rparr>,
      nextRef = 5\<rparr>"


text \<open>
  The heaps a run can reach. A reference is handed out once, in increasing order, so
  every object in use is older than \<open>nextRef\<close>: the three registers, every address
  object that is a key of the memory, and every stored word.
\<close>

definition heap_below :: "nat \<Rightarrow> Memory \<Rightarrow> bool" where
  "heap_below n m \<longleftrightarrow> (\<forall>k w. data m k = Some w \<longrightarrow> k < n \<and> ref_of w < n)"

definition well_formed :: "VirtualMachine \<Rightarrow> bool" where
  "well_formed vm \<longleftrightarrow>
     ref (pc (runContext vm)) < nextRef vm \<and>
     ref (ap (runContext vm)) < nextRef vm \<and>
     ref (fp (runContext vm)) < nextRef vm \<and>
     heap_below (nextRef vm) (segments vm)"

section \<open>Properties\<close>

subsection \<open>Field elements\<close>

lemma PRIME_eq: "PRIME = 2 ^ 251 + 17 * 2 ^ 192 + 1"
  by (simp add: PRIME_def)

lemma PRIME_pos: "0 < PRIME"
  by (simp add: PRIME_def)

text \<open>
  Claim C8 as stated fails: the constructor reduces nothing. For \<open>- 10\<close>, the input of
  the test \<^verbatim>\<open>should throw if initializing a felt with a negative inner\<close>, it throws
  \<^verbatim>\<open>FeltError\<close>, where the claim has it succeed and store \<open>- 10 mod p\<close>.
\<close>

theorem C8_negative_counterexample:
  "Felt_new 0 (- 10) = Inl FeltError \<and>
   Felt_new 0 (- 10) \<noteq> Inr \<lparr>ref = 0, inner = (- 10) mod PRIME\<rparr>"
  by (simp add: Felt_new_def)

text \<open>
  Claim C8, amended: for every integer \<open>i\<close> other than \<open>p\<close>, construction succeeds
  exactly when \<open>0 \<le> i < p\<close>, and then stores \<open>i\<close> itself, which is the reduced residue
  \<open>i mod p\<close> and lies in \<open>[0, p)\<close>, where \<open>p = 2^251 + 17 * 2^192 + 1\<close>; for negative
  \<open>i\<close> and for \<open>i > p\<close> it fails with \<^verbatim>\<open>FeltError\<close>.
\<close>

theorem C8_Felt_new_in_range:
  "i \<noteq> PRIME \<Longrightarrow>
   PRIME = 2 ^ 251 + 17 * 2 ^ 192 + 1 \<and>
   Felt_new r i =
     (if 0 \<le> i \<and> i < PRIME then Inr \<lparr>ref = r, inner = i mod PRIME\<rparr>
      else Inl FeltError) \<and>
   (\<forall>f. Felt_new r i = Inr f \<longrightarrow> 0 \<le> inner f \<and> inner f < PRIME)"
  by (auto simp: Felt_new_def PRIME_eq)

theorem C8_Felt_new_in_range_witness:
  "Felt_new 7 10 = Inr \<lparr>ref = 7, inner = 10\<rparr> \<and>
   Felt_new 7 (PRIME + 1) = Inl FeltError"
  using C8_Felt_new_in_range [of 10 7] C8_Felt_new_in_range [of "PRIME + 1" 7]
  by (simp add: PRIME_def)

subsection \<open>Memory\<close>

text \<open>
  Claim C9 fails on the code at the empty cell: for a fresh memory and the address
  \<open>(0, 0)\<close>, the input of the test \<^verbatim>\<open>should return None if address is not written to\<close>,
  \<^verbatim>\<open>get\<close> returns the error \<^verbatim>\<open>UnknownAddressError\<close>. A filled cell is returned as
  \<^verbatim>\<open>Ok\<close> of its word.
\<close>

theorem C9_get_empty_cell_is_error:
  "Memory_get \<lparr>ref = 0, segmentIndex = 0, offset = 0\<rparr> Memory_new = Inl UnknownAddressError"
  by (simp add: Memory_get_def Memory_new_def)

subsection \<open>Decoding\<close>

lemma mask_consts:
  "(0x01 :: 64 word) = push_bit 0 (mask 1)"
  "(0x02 :: 64 word) = push_bit 1 (mask 1)"
  "(0x1c :: 64 word) = push_bit 2 (mask 3)"
  "(0x60 :: 64 word) = push_bit 5 (mask 2)"
  "(0x0380 :: 64 word) = push_bit 7 (mask 3)"
  "(0x0c00 :: 64 word) = push_bit 10 (mask 2)"
  "(0x7000 :: 64 word) = push_bit 12 (mask 3)"
  by (simp_all add: mask_eq_exp_minus_1)

lemma cut_field:
  "drop_bit k (drop_bit 48 (e::64 word) AND push_bit k (mask n)) = take_bit n (drop_bit (48 + k) e)"
  by (rule bit_eqI) (auto simp add: bit_simps ac_simps dest: bit_imp_le_length)

lemma low16: "((e::64 word) AND 0xffff) = take_bit 16 e"
proof -
  have "(0xffff :: 64 word) = mask 16" by (simp add: mask_eq_exp_minus_1)
  then show ?thesis by (simp add: take_bit_eq_mask)
qed

lemma high_bit: "(push_bit 63 1 AND (e::64 word)) \<noteq> 0 \<longleftrightarrow> bit e 63"
proof -
  have "push_bit 63 1 AND e = e AND 2 ^ 63"
    by (simp only: push_bit_of_1 and.commute)
  then show ?thesis
    by (simp only: and_exp_eq_0_iff_not_bit not_not)
qed

lemma two_bits: "take_bit 2 (w::64 word) \<noteq> 0 \<Longrightarrow> take_bit 2 w \<noteq> 1 \<Longrightarrow> take_bit 2 w \<noteq> 2 \<Longrightarrow> take_bit 2 w = 3"
proof -
  assume a: "take_bit 2 w \<noteq> 0" "take_bit 2 w \<noteq> 1" "take_bit 2 w \<noteq> 2"
  have "unat (take_bit 2 w) < 4"
    using unsigned_take_bit_eq[of 2 w, where ?'a = nat] by (simp add: take_bit_eq_mod)
  then have "unat (take_bit 2 w) \<in> {0,1,2,3}" by auto
  then show ?thesis using a
    by (auto simp: word_unat_eq_iff)
qed

lemma reg_bit: "take_bit (Suc 0) (drop_bit k (e::64 word)) = 0 \<longleftrightarrow> \<not> bit e k"
  by (simp add: bit_iff_odd_drop_bit take_bit_Suc_0 flip: even_iff_mod_2_eq_zero)

lemma flag_fields:
  "drop_bit 0 (drop_bit 48 (e::64 word) AND 0x01) = bits 48 48 e"
  "drop_bit 1 (drop_bit 48 e AND 0x02) = bits 49 49 e"
  "drop_bit 2 (drop_bit 48 e AND 0x1c) = bits 50 52 e"
  "drop_bit 5 (drop_bit 48 e AND 0x60) = bits 53 54 e"
  "drop_bit 7 (drop_bit 48 e AND 0x0380) = bits 55 57 e"
  "drop_bit 10 (drop_bit 48 e AND 0x0c00) = bits 58 59 e"
  "drop_bit 12 (drop_bit 48 e AND 0x7000) = bits 60 62 e"
  unfolding mask_consts cut_field bits_def by simp_all

lemma offset_fields:
  "(e::64 word) AND 0xffff = bits 0 15 e"
  "bits 0 15 (drop_bit 16 e) = bits 16 31 e"
  "bits 16 31 (drop_bit 16 e) = bits 32 47 e"
  "drop_bit 16 (drop_bit 16 (drop_bit 16 e)) = drop_bit 48 e"
  unfolding low16 bits_def by simp_all

lemma switch_layout:
  "switch_op1Src (bits 50 52 e) = (case layout_op1Src e of None \<Rightarrow> Inl InvalidOp1Src | Some v \<Rightarrow> Inr v)"
  "switch_pcUpdate (bits 55 57 e) = (case layout_pcUpdate e of None \<Rightarrow> Inl InvalidPcUpdate | Some v \<Rightarrow> Inr v)"
  "switch_resLogic (bits 53 54 e) pcu = (case layout_resLogic e pcu of None \<Rightarrow> Inl InvalidResultLogic | Some v \<Rightarrow> Inr v)"
  "switch_opcode (bits 60 62 e) = (case layout_opcode e of None \<Rightarrow> Inl InvalidOpcode | Some v \<Rightarrow> Inr v)"
  "switch_apUpdate (bits 58 59 e) opc = (case layout_apUpdate e opc of None \<Rightarrow> Inl InvalidApUpdate | Some v \<Rightarrow> Inr v)"
  by (simp_all add: switch_op1Src_def switch_pcUpdate_def switch_resLogic_def switch_opcode_def
      switch_apUpdate_def layout_op1Src_def layout_pcUpdate_def layout_resLogic_def layout_opcode_def
      layout_apUpdate_def Let_def)

lemma switch_fpUpdate_layout: "switch_fpUpdate opc = layout_fpUpdate opc"
  by (cases opc) (simp_all add: switch_fpUpdate_def layout_fpUpdate_def)

lemma reg_layout:
  "(if bits 48 48 e = 0 then RegisterFlag.AP else RegisterFlag.FP) = layout_reg 48 e"
  "(if bits 49 49 e = 0 then RegisterFlag.AP else RegisterFlag.FP) = layout_reg 49 e"
  by (simp_all add: bits_def layout_reg_def bit_iff_odd_drop_bit even_iff_mod_2_eq_zero
      odd_iff_mod_2_eq_one)

lemma decodeInstruction_by_layout:
  "decodeInstruction e =
     (if bit e 63 then Inl HighBitSetError
      else case layout_op1Src e of None \<Rightarrow> Inl InvalidOp1Src | Some s \<Rightarrow>
           case layout_pcUpdate e of None \<Rightarrow> Inl InvalidPcUpdate | Some pcu \<Rightarrow>
           case layout_resLogic e pcu of None \<Rightarrow> Inl InvalidResultLogic | Some rl \<Rightarrow>
           case layout_opcode e of None \<Rightarrow> Inl InvalidOpcode | Some opc \<Rightarrow>
           case layout_apUpdate e opc of None \<Rightarrow> Inl InvalidApUpdate | Some apu \<Rightarrow>
           Inr \<lparr>offDst = layout_offset 0 15 e, offOp0 = layout_offset 16 31 e,
                offOp1 = layout_offset 32 47 e,
                dstReg = layout_reg 48 e, op0Reg = layout_reg 49 e, op1Src = s,
                resLogic = rl, pcUpdate = pcu, apUpdate = apu,
                fpUpdate = layout_fpUpdate opc, opcode = opc\<rparr>)"
  unfolding decodeInstruction_def Let_def high_bit offset_fields flag_fields fromBiased_def
    switch_layout switch_fpUpdate_layout reg_layout
  by (simp add: layout_offset_def split: option.splits)

lemma bits_two: "bits 53 54 e = take_bit 2 (drop_bit 53 e)" "bits 58 59 e = take_bit 2 (drop_bit 58 e)"
  by (simp_all add: bits_def)

lemma layout_resLogic_None: "layout_resLogic e pcu = None \<longleftrightarrow> bits 53 54 e = 3"
  using two_bits [of "drop_bit 53 e"]
  by (auto simp: layout_resLogic_def Let_def bits_two)

lemma layout_apUpdate_None: "layout_apUpdate e opc = None \<longleftrightarrow> bits 58 59 e = 3"
  using two_bits [of "drop_bit 58 e"]
  by (auto simp: layout_apUpdate_def Let_def bits_two)

lemma layout_op1Src_None: "layout_op1Src e = None \<longleftrightarrow> bits 50 52 e \<notin> {0, 1, 2, 4}"
  by (simp add: layout_op1Src_def Let_def)

lemma layout_pcUpdate_None: "layout_pcUpdate e = None \<longleftrightarrow> bits 55 57 e \<notin> {0, 1, 2, 4}"
  by (simp add: layout_pcUpdate_def Let_def)

lemma layout_opcode_None: "layout_opcode e = None \<longleftrightarrow> bits 60 62 e \<notin> {0, 1, 2, 4}"
  by (simp add: layout_opcode_def Let_def)

lemma decode_Inr_iff:
  "\<not> bit e 63 \<Longrightarrow> decodeInstruction e = Inr i \<longleftrightarrow>
     offDst i = layout_offset 0 15 e \<and> offOp0 i = layout_offset 16 31 e \<and>
     offOp1 i = layout_offset 32 47 e \<and>
     dstReg i = layout_reg 48 e \<and> op0Reg i = layout_reg 49 e \<and>
     layout_op1Src e = Some (op1Src i) \<and>
     layout_resLogic e (pcUpdate i) = Some (resLogic i) \<and>
     layout_pcUpdate e = Some (pcUpdate i) \<and>
     layout_apUpdate e (opcode i) = Some (apUpdate i) \<and>
     layout_opcode e = Some (opcode i) \<and>
     fpUpdate i = layout_fpUpdate (opcode i)"
  unfolding decodeInstruction_by_layout
  by (cases i) (auto split: option.splits)

lemma decode_Inl_cases:
  "\<not> bit e 63 \<Longrightarrow> decodeInstruction e = Inl err \<Longrightarrow>
     err = InvalidOp1Src \<and> layout_op1Src e = None \<or>
     err = InvalidPcUpdate \<and> layout_pcUpdate e = None \<or>
     err = InvalidResultLogic \<and> bits 53 54 e = 3 \<or>
     err = InvalidOpcode \<and> layout_opcode e = None \<or>
     err = InvalidApUpdate \<and> bits 58 59 e = 3"
  unfolding decodeInstruction_by_layout
  by (auto split: option.splits simp: layout_resLogic_None layout_apUpdate_None)

lemma decode_HighBit_iff: "decodeInstruction e = Inl HighBitSetError \<longleftrightarrow> bit e 63"
  unfolding decodeInstruction_by_layout
  by (auto split: option.splits)

text \<open>
  Claim C5: \<^verbatim>\<open>decodeInstruction\<close> fails with \<^verbatim>\<open>HighBitSetError\<close> iff bit 63 is set.
  Otherwise it returns an instruction exactly when every field holds a listed value, and
  the instruction is then the one the layout gives: the three offsets are the biased
  16-bit fields at bits 0-15, 16-31 and 32-47, the registers are bits 48 and 49, op1_src
  is bits 50-52, res_logic bits 53-54 (Unconstrained for 0 under Jnz), pc_update bits
  55-57, ap_update bits 58-59 (Add2 for 0 under Call), opcode bits 60-62, and fp_update
  follows the opcode. When it fails, the error is that of a field holding an unlisted
  value (3 for res_logic and ap_update). The size of an instruction is 2 iff op1_src is
  Imm, else 1.
\<close>

theorem C5_decodeInstruction_bit_layout:
  "(decodeInstruction e = Inl HighBitSetError \<longleftrightarrow> bit e 63) \<and>
   (\<not> bit e 63 \<longrightarrow>
      (\<forall>i. decodeInstruction e = Inr i \<longleftrightarrow>
         offDst i = layout_offset 0 15 e \<and> offOp0 i = layout_offset 16 31 e \<and>
         offOp1 i = layout_offset 32 47 e \<and>
         dstReg i = layout_reg 48 e \<and> op0Reg i = layout_reg 49 e \<and>
         layout_op1Src e = Some (op1Src i) \<and>
         layout_resLogic e (pcUpdate i) = Some (resLogic i) \<and>
         layout_pcUpdate e = Some (pcUpdate i) \<and>
         layout_apUpdate e (opcode i) = Some (apUpdate i) \<and>
         layout_opcode e = Some (opcode i) \<and>
         fpUpdate i = layout_fpUpdate (opcode i)) \<and>
      (\<forall>err. decodeInstruction e = Inl err \<longrightarrow>
         err = InvalidOp1Src \<and> bits 50 52 e \<notin> {0, 1, 2, 4} \<or>
         err = InvalidPcUpdate \<and> bits 55 57 e \<notin> {0, 1, 2, 4} \<or>
         err = InvalidResultLogic \<and> bits 53 54 e = 3 \<or>
         err = InvalidOpcode \<and> bits 60 62 e \<notin> {0, 1, 2, 4} \<or>
         err = InvalidApUpdate \<and> bits 58 59 e = 3)) \<and>
   (\<forall>i. Instruction_size i = (if op1Src i = Op1Src.Imm then 2 else 1))"
proof (intro conjI impI allI)
  show "decodeInstruction e = Inl HighBitSetError \<longleftrightarrow> bit e 63"
    by (rule decode_HighBit_iff)
next
  fix i assume "\<not> bit e 63"
  then show "decodeInstruction e = Inr i \<longleftrightarrow>
         offDst i = layout_offset 0 15 e \<and> offOp0 i = layout_offset 16 31 e \<and>
         offOp1 i = layout_offset 32 47 e \<and>
         dstReg i = layout_reg 48 e \<and> op0Reg i = layout_reg 49 e \<and>
         layout_op1Src e = Some (op1Src i) \<and>
         layout_resLogic e (pcUpdate i) = Some (resLogic i) \<and>
         layout_pcUpdate e = Some (pcUpdate i) \<and>
         layout_apUpdate e (opcode i) = Some (apUpdate i) \<and>
         layout_opcode e = Some (opcode i) \<and>
         fpUpdate i = layout_fpUpdate (opcode i)"
    by (rule decode_Inr_iff)
next
  fix err assume a: "\<not> bit e 63" "decodeInstruction e = Inl err"
  show "err = InvalidOp1Src \<and> bits 50 52 e \<notin> {0, 1, 2, 4} \<or>
         err = InvalidPcUpdate \<and> bits 55 57 e \<notin> {0, 1, 2, 4} \<or>
         err = InvalidResultLogic \<and> bits 53 54 e = 3 \<or>
         err = InvalidOpcode \<and> bits 60 62 e \<notin> {0, 1, 2, 4} \<or>
         err = InvalidApUpdate \<and> bits 58 59 e = 3"
    using decode_Inl_cases [OF a]
    by (simp only: layout_op1Src_None layout_pcUpdate_None layout_opcode_None)
next
  fix i show "Instruction_size i = (if op1Src i = Op1Src.Imm then 2 else 1)"
    by (simp add: Instruction_size_def)
qed

theorem C5_decodeInstruction_bit_layout_witness:
  "\<not> bit scenario1_word 63 \<and>
   decodeInstruction scenario1_word =
     Inr \<lparr>offDst = 0, offOp0 = 1, offOp1 = 0, dstReg = RegisterFlag.FP,
          op0Reg = RegisterFlag.AP, op1Src = Op1Src.AP, resLogic = ResLogic.Op1,
          pcUpdate = PcUpdate.Regular, apUpdate = ApUpdate.Regular,
          fpUpdate = FpUpdate.Regular, opcode = Opcode.AssertEq\<rparr> \<and>
   decodeInstruction (scenario1_word + 0x4000000000000000) = Inl HighBitSetError \<and>
   (\<exists>err. decodeInstruction (scenario1_word + 0x0060000000000000) = Inl err \<and>
      err = InvalidResultLogic)"
proof -
  have "\<exists>err. decodeInstruction (scenario1_word + 0x0060000000000000) = Inl err"
    using C5_decodeInstruction_bit_layout [of "scenario1_word + 0x0060000000000000"]
    by (cases "decodeInstruction (scenario1_word + 0x0060000000000000)")
       (simp_all add: scenario1_word_def bits_def layout_resLogic_def Let_def)
  then show ?thesis
    using C5_decodeInstruction_bit_layout [of scenario1_word]
      C5_decodeInstruction_bit_layout [of "scenario1_word + 0x4000000000000000"]
      C5_decodeInstruction_bit_layout [of "scenario1_word + 0x0060000000000000"]
    by (auto simp add: scenario1_word_def bits_def layout_offset_def layout_reg_def layout_op1Src_def
        layout_resLogic_def layout_pcUpdate_def layout_apUpdate_def layout_opcode_def
        layout_fpUpdate_def Let_def)
qed

subsection \<open>Writing a cell twice\<close>

text \<open>
  Claim C1 as stated fails at the input of the test
  \<^verbatim>\<open>should return error if address is already written to\<close>: one segment, the address
  \<open>(0, 0)\<close>, and \<open>Felt(10)\<close> inserted twice. The first insert succeeds, the two words are
  equal by value, and the second insert fails with \<^verbatim>\<open>WriteOnceError\<close>.
\<close>

theorem C1_equal_value_counterexample:
  "Memory_insert \<lparr>ref = 0, segmentIndex = 0, offset = 0\<rparr> (FeltW \<lparr>ref = 1, inner = 10\<rparr>)
     (incrementNumSegments Memory_new)
     = Inr \<lparr>data = [0 \<mapsto> FeltW \<lparr>ref = 1, inner = 10\<rparr>], numSegments = 1\<rparr> \<and>
   word_eq (FeltW \<lparr>ref = 1, inner = 10\<rparr>) (FeltW \<lparr>ref = 1, inner = 10\<rparr>) \<and>
   Memory_insert \<lparr>ref = 0, segmentIndex = 0, offset = 0\<rparr> (FeltW \<lparr>ref = 1, inner = 10\<rparr>)
     \<lparr>data = [0 \<mapsto> FeltW \<lparr>ref = 1, inner = 10\<rparr>], numSegments = 1\<rparr>
     = Inl WriteOnceError"
  by (simp add: Memory_insert_def incrementNumSegments_def Memory_new_def Felt_eq_def)

text \<open>
  Claim C1, amended: for every address object \<open>A\<close> and words \<open>W\<close>, \<open>W'\<close>, if
  \<open>insert(A, W)\<close> succeeds, a later \<open>insert(A, W')\<close> through the same object \<open>A\<close>
  fails with \<^verbatim>\<open>WriteOnceError\<close>, whether or not \<open>W'\<close> equals \<open>W\<close> by value.
\<close>

theorem C1_second_insert_fails:
  "Memory_insert A W m = Inr m' \<Longrightarrow> Memory_insert A W' m' = Inl WriteOnceError"
  by (auto simp: Memory_insert_def split: if_splits)

theorem C1_second_insert_fails_witness:
  "Memory_insert \<lparr>ref = 0, segmentIndex = 0, offset = 0\<rparr> (FeltW \<lparr>ref = 1, inner = 10\<rparr>)
     (incrementNumSegments Memory_new)
     = Inr \<lparr>data = [0 \<mapsto> FeltW \<lparr>ref = 1, inner = 10\<rparr>], numSegments = 1\<rparr> \<and>
   Memory_insert \<lparr>ref = 0, segmentIndex = 0, offset = 0\<rparr> (FeltW \<lparr>ref = 2, inner = 11\<rparr>)
     \<lparr>data = [0 \<mapsto> FeltW \<lparr>ref = 1, inner = 10\<rparr>], numSegments = 1\<rparr>
     = Inl WriteOnceError"
proof -
  have h: "Memory_insert \<lparr>ref = 0, segmentIndex = 0, offset = 0\<rparr> (FeltW \<lparr>ref = 1, inner = 10\<rparr>)
     (incrementNumSegments Memory_new)
     = Inr \<lparr>data = [0 \<mapsto> FeltW \<lparr>ref = 1, inner = 10\<rparr>], numSegments = 1\<rparr>"
    by (simp add: Memory_insert_def incrementNumSegments_def Memory_new_def)
  from h C1_second_insert_fails [OF h] show ?thesis by simp
qed

text \<open>
  The amended claim is about one address object. The \<^verbatim>\<open>Map\<close> looks a key up by
  reference, so through another \<^verbatim>\<open>Relocatable\<close> with the same segment and offset the
  test \<^verbatim>\<open>data.get(address) !== undefined\<close> finds nothing and the insert succeeds,
  whatever the word.
\<close>

lemma insert_through_other_object:
  "Memory_insert \<lparr>ref = 5, segmentIndex = 0, offset = 0\<rparr> (FeltW \<lparr>ref = 2, inner = 11\<rparr>)
     \<lparr>data = [0 \<mapsto> FeltW \<lparr>ref = 1, inner = 10\<rparr>], numSegments = 1\<rparr>
     = Inr \<lparr>data = [0 \<mapsto> FeltW \<lparr>ref = 1, inner = 10\<rparr>, 5 \<mapsto> FeltW \<lparr>ref = 2, inner = 11\<rparr>],
            numSegments = 1\<rparr>"
  by (simp add: Memory_insert_def)

subsection \<open>The step\<close>

text \<open>
  Claim C3 fails on the code: on the machine of the scenario \<^verbatim>\<open>step\<close> fetches and
  decodes the word and then throws \<^verbatim>\<open>Error('TODO: Not Implemented')\<close>; it writes
  nothing and leaves \<open>pc\<close> as it is. No machine exists on which \<^verbatim>\<open>step\<close> returns
  normally.
\<close>

theorem C3_step_not_implemented:
  "step scenario1_vm = Inl NotImplemented \<and> (\<forall>vm vm'. step vm \<noteq> Inr vm')"
  by (simp add: step_def scenario1_vm_def RunContext_default_def segments_memory_get_def
      Memory_get_def toUint64_def Let_def split: option.splits MaybeRelocatable.splits sum.splits)

subsection \<open>The opcode assertion\<close>

text \<open>
  Claim C4 fails on the code where the claim says "by value": \<^verbatim>\<open>AssertEq\<close> with
  \<open>dst\<close> and \<open>res\<close> two objects \<open>Felt(7)\<close>, equal by value, fails with
  \<^verbatim>\<open>DiffAssertValuesError\<close>, and \<^verbatim>\<open>Call\<close> with \<open>op0 = pc + 1\<close> and \<open>dst\<close> an
  object equal to \<open>fp\<close> by value fails with \<^verbatim>\<open>InvalidDstOperand\<close>: both tests are
  \<^verbatim>\<open>!==\<close> on objects.
\<close>

theorem C4_assertion_compares_references:
  "word_eq (FeltW \<lparr>ref = 10, inner = 7\<rparr>) (FeltW \<lparr>ref = 11, inner = 7\<rparr>) \<and>
   opcodeAssertion (Instruction_default\<lparr>opcode := Opcode.AssertEq\<rparr>)
     \<lparr>op0 = None, op1 = None, res = Some (FeltW \<lparr>ref = 11, inner = 7\<rparr>),
      dst = Some (FeltW \<lparr>ref = 10, inner = 7\<rparr>)\<rparr> VirtualMachine_new
     = Inl DiffAssertValuesError \<and>
   word_eq (RelocW (fp RunContext_default)) (RelocW \<lparr>ref = 13, segmentIndex = 1, offset = 0\<rparr>) \<and>
   opcodeAssertion (Instruction_default\<lparr>opcode := Opcode.Call\<rparr>)
     \<lparr>op0 = Some (RelocW \<lparr>ref = 12, segmentIndex = 0, offset = 1\<rparr>), op1 = None, res = None,
      dst = Some (RelocW \<lparr>ref = 13, segmentIndex = 1, offset = 0\<rparr>)\<rparr> VirtualMachine_new
     = Inl InvalidDstOperand"
  by (simp add: opcodeAssertion_def Instruction_default_def VirtualMachine_new_def
      RunContext_default_def Felt_eq_def Relocatable_add_def Instruction_size_def)

subsection \<open>Deduction\<close>

text \<open>
  Claim C7 as stated fails: division by zero is not the only error recovered. Dividing a
  relocatable by a field element is a \<open>TypeMismatch\<close> of the division, and
  \<^verbatim>\<open>deduceOp0\<close> and \<^verbatim>\<open>deduceOp1\<close> return \<open>(None, None)\<close> for it as well.
\<close>

theorem C7_division_type_error_counterexample:
  "word_div 9 (RelocW \<lparr>ref = 5, segmentIndex = 1, offset = 4\<rparr>) (FeltW \<lparr>ref = 6, inner = 2\<rparr>)
     = Inl TypeMismatch \<and>
   deduceOp0 9 RunContext_default
     (Instruction_default\<lparr>resLogic := ResLogic.Mul, opcode := Opcode.AssertEq\<rparr>)
     (Some (RelocW \<lparr>ref = 5, segmentIndex = 1, offset = 4\<rparr>))
     (Some (FeltW \<lparr>ref = 6, inner = 2\<rparr>)) = Inr (None, None) \<and>
   deduceOp1 9
     (Instruction_default\<lparr>resLogic := ResLogic.Mul, opcode := Opcode.AssertEq\<rparr>)
     (Some (RelocW \<lparr>ref = 5, segmentIndex = 1, offset = 4\<rparr>))
     (Some (FeltW \<lparr>ref = 6, inner = 2\<rparr>)) = Inr (None, None)"
  by (simp add: deduceOp0_def deduceOp1_def Instruction_default_def)

text \<open>
  Claim C7, amended: in \<^verbatim>\<open>deduceOp0\<close> and \<^verbatim>\<open>deduceOp1\<close> with opcode AssertEq and
  res_logic Mul, and \<open>dst\<close> and the other operand defined, every error of the division
  gives the successful result \<open>(None, None)\<close>, the division by zero among them, and a
  quotient \<open>v\<close> gives \<open>(v, dst)\<close>; with res_logic Add an error of the subtraction is
  returned to the caller.
\<close>

theorem C7_deduction_errors:
  "(opcode i = Opcode.AssertEq \<and> resLogic i = ResLogic.Mul \<longrightarrow>
      deduceOp0 r rc i (Some d) (Some w) =
        (case word_div r d w of Inl e \<Rightarrow> Inr (None, None) | Inr v \<Rightarrow> Inr (Some v, Some d)) \<and>
      deduceOp1 r i (Some d) (Some w) =
        (case word_div r d w of Inl e \<Rightarrow> Inr (None, None) | Inr v \<Rightarrow> Inr (Some v, Some d))) \<and>
   (opcode i = Opcode.AssertEq \<and> resLogic i = ResLogic.Mul \<and> inner z = 0 \<longrightarrow>
      word_div r (FeltW x) (FeltW z) = Inl DivisionByZero \<and>
      deduceOp0 r rc i (Some (FeltW x)) (Some (FeltW z)) = Inr (None, None) \<and>
      deduceOp1 r i (Some (FeltW x)) (Some (FeltW z)) = Inr (None, None)) \<and>
   (opcode i = Opcode.AssertEq \<and> resLogic i = ResLogic.Add \<and> word_sub r d w = Inl e \<longrightarrow>
      deduceOp0 r rc i (Some d) (Some w) = Inl e \<and>
      deduceOp1 r i (Some d) (Some w) = Inl e)"
  by (simp add: deduceOp0_def deduceOp1_def Felt_div_def split: sum.splits)

theorem C7_deduction_errors_witness:
  "deduceOp0 9 RunContext_default
     (Instruction_default\<lparr>resLogic := ResLogic.Mul, opcode := Opcode.AssertEq\<rparr>)
     (Some (FeltW \<lparr>ref = 5, inner = 6\<rparr>)) (Some (FeltW \<lparr>ref = 6, inner = 0\<rparr>))
     = Inr (None, None) \<and>
   deduceOp1 9
     (Instruction_default\<lparr>resLogic := ResLogic.Mul, opcode := Opcode.AssertEq\<rparr>)
     (Some (FeltW \<lparr>ref = 5, inner = 6\<rparr>)) (Some (FeltW \<lparr>ref = 6, inner = 0\<rparr>))
     = Inr (None, None) \<and>
   deduceOp0 9 RunContext_default
     (Instruction_default\<lparr>resLogic := ResLogic.Add, opcode := Opcode.AssertEq\<rparr>)
     (Some (FeltW \<lparr>ref = 5, inner = 6\<rparr>))
     (Some (RelocW \<lparr>ref = 6, segmentIndex = 1, offset = 0\<rparr>))
     = Inl TypeMismatch"
  using
    C7_deduction_errors [where i = "Instruction_default\<lparr>resLogic := ResLogic.Mul, opcode := Opcode.AssertEq\<rparr>"
      and r = 9 and rc = RunContext_default and z = "\<lparr>ref = 6, inner = 0\<rparr>"
      and x = "\<lparr>ref = 5, inner = 6\<rparr>"]
    C7_deduction_errors [where i = "Instruction_default\<lparr>resLogic := ResLogic.Add, opcode := Opcode.AssertEq\<rparr>"
      and r = 9 and rc = RunContext_default and d = "FeltW \<lparr>ref = 5, inner = 6\<rparr>"
      and w = "RelocW \<lparr>ref = 6, segmentIndex = 1, offset = 0\<rparr>" and e = TypeMismatch]
  by (simp add: Instruction_default_def)

subsection \<open>Operand resolution\<close>

lemmas eval_defs =
  example_instruction_def Instruction_default_def VirtualMachine_new_def RunContext_default_def
  Memory_new_def computeOperands_def computeOperands_op0_def computeOperands_op1_def
  computeOperands_res_def computeOperands_dst_def computeAddress_def computeOp1Address_def
  applyOffset_def Relocatable_add_def segments_memory_get_def Memory_get_def deduceOp0_def
  deduceOp1_def computeRes_def deduceDst_def insert_deduced_def Memory_insert_def
  incrementNumSegments_def Instruction_size_def Let_def

lemma get_numSegments:
  "segments_memory_get a (m\<lparr>numSegments := n\<rparr>) = segments_memory_get a m"
  by (simp add: segments_memory_get_def Memory_get_def)

lemma op0_block_result:
  "map_sum id snd (computeOperands_op0 r rc i d o0 o1 a m') =
   map_sum id snd (computeOperands_op0 r rc i d o0 o1 a m)"
  by (simp add: computeOperands_op0_def split: sum.splits prod.splits)

lemma op1_block_result:
  "map_sum id snd (computeOperands_op1 r i d o0 o1 a m' res1) =
   map_sum id snd (computeOperands_op1 r i d o0 o1 a m res1)"
  by (simp add: computeOperands_op1_def split: sum.splits prod.splits)

lemma dst_block_result:
  "map_sum id snd (computeOperands_dst rc i d a m' res3) =
   map_sum id snd (computeOperands_dst rc i d a m res3)"
  by (simp add: computeOperands_dst_def split: sum.splits prod.splits)

lemma map_sum_snd_cases:
  "map_sum id snd x = map_sum id snd y \<Longrightarrow>
   (\<exists>e. x = Inl e \<and> y = Inl e) \<or> (\<exists>m m' v. x = Inr (m, v) \<and> y = Inr (m', v))"
  by (cases x; cases y) auto

lemma computeOperands_result_numSegments:
  "fst (computeOperands i (vm\<lparr>segments := (segments vm)\<lparr>numSegments := n\<rparr>\<rparr>))
   = fst (computeOperands i vm)"
proof -
  define r where "r = nextRef vm"
  define rc where "rc = runContext vm"
  define m where "m = segments vm"
  define m' where "m' = m\<lparr>numSegments := n\<rparr>"
  note defs = computeOperands_def Let_def get_numSegments r_def [symmetric] rc_def [symmetric]
    m_def [symmetric] m'_def [symmetric]
  have g: "\<And>a. segments_memory_get a m' = segments_memory_get a m"
    by (simp add: m'_def get_numSegments)
  show ?thesis
  proof (cases "computeAddress r rc (dstReg i) (offDst i)")
    case Inl
    then show ?thesis by (simp add: defs)
  next
    case dA: (Inr dstAddr)
    show ?thesis
    proof (cases "computeAddress (r + 1) rc (op0Reg i) (offOp0 i)")
      case Inl
      with dA show ?thesis by (simp add: defs)
    next
      case oA: (Inr op0Addr)
      show ?thesis
      proof (cases "computeOp1Address (r + 2) rc (op1Src i) (offOp1 i)
                      (segments_memory_get op0Addr m)")
        case Inl
        with dA oA show ?thesis by (simp add: defs g)
      next
        case pA: (Inr op1Addr)
        define d0 where "d0 = segments_memory_get dstAddr m"
        define o0 where "o0 = segments_memory_get op0Addr m"
        define o1 where "o1 = segments_memory_get op1Addr m"
        note rd = d0_def [symmetric] o0_def [symmetric] o1_def [symmetric]
        from map_sum_snd_cases [OF op0_block_result [of "r + 3" rc i d0 o0 o1 op0Addr m' m]]
        show ?thesis
        proof (elim disjE exE conjE)
          fix e assume "computeOperands_op0 (r + 3) rc i d0 o0 o1 op0Addr m' = Inl e"
            "computeOperands_op0 (r + 3) rc i d0 o0 o1 op0Addr m = Inl e"
          with dA oA pA show ?thesis by (simp add: defs g rd)
        next
          fix m1 m1' res1
          assume b0: "computeOperands_op0 (r + 3) rc i d0 o0 o1 op0Addr m' = Inr (m1, res1)"
            "computeOperands_op0 (r + 3) rc i d0 o0 o1 op0Addr m = Inr (m1', res1)"
          from map_sum_snd_cases [OF op1_block_result [of "r + 4" i d0 o0 o1 op1Addr m1 res1 m1']]
          show ?thesis
          proof (elim disjE exE conjE)
            fix e assume "computeOperands_op1 (r + 4) i d0 o0 o1 op1Addr m1 res1 = Inl e"
              "computeOperands_op1 (r + 4) i d0 o0 o1 op1Addr m1' res1 = Inl e"
            with dA oA pA b0 show ?thesis by (simp add: defs g rd)
          next
            fix m2 m2' res2
            assume b1: "computeOperands_op1 (r + 4) i d0 o0 o1 op1Addr m1 res1 = Inr (m2, res2)"
              "computeOperands_op1 (r + 4) i d0 o0 o1 op1Addr m1' res1 = Inr (m2', res2)"
            show ?thesis
            proof (cases "computeOperands_res (r + 5) i o0 o1 res2")
              case Inl
              with dA oA pA b0 b1 show ?thesis by (simp add: defs g rd)
            next
              case b2: (Inr res3)
              from map_sum_snd_cases [OF dst_block_result [of rc i d0 dstAddr m2 res3 m2']]
              show ?thesis
              proof (elim disjE exE conjE)
                fix e assume "computeOperands_dst rc i d0 dstAddr m2 res3 = Inl e"
                  "computeOperands_dst rc i d0 dstAddr m2' res3 = Inl e"
                with dA oA pA b0 b1 b2 show ?thesis by (simp add: defs g rd)
              next
                fix m3 m3' dst1
                assume "computeOperands_dst rc i d0 dstAddr m2 res3 = Inr (m3, dst1)"
                  "computeOperands_dst rc i d0 dstAddr m2' res3 = Inr (m3', dst1)"
                with dA oA pA b0 b1 b2 show ?thesis by (simp add: defs g rd)
              qed
            qed
          qed
        qed
      qed
    qed
  qed
qed

lemma applyOffset_ref: "applyOffset r base off = Inr a \<Longrightarrow> ref a = r"
  by (auto simp: applyOffset_def Relocatable_add_def Relocatable_sub_def split: if_splits)

lemma computeAddress_ref: "computeAddress r rc reg off = Inr a \<Longrightarrow> ref a = r"
  by (auto simp: computeAddress_def split: RegisterFlag.splits dest: applyOffset_ref)

lemma computeOp1Address_ref: "computeOp1Address r rc src off o0 = Inr a \<Longrightarrow> ref a = r"
  by (auto simp: computeOp1Address_def
      split: Op1Src.splits option.splits MaybeRelocatable.splits if_splits dest: applyOffset_ref)









lemma well_formed_scenario1: "well_formed scenario1_vm"
  by (auto simp: well_formed_def heap_below_def scenario1_vm_def RunContext_default_def
      split: if_splits)

lemma well_formed_read_None:
  "well_formed vm \<Longrightarrow> nextRef vm \<le> ref a \<Longrightarrow> segments_memory_get a (segments vm) = None"
proof (cases "data (segments vm) (ref a)")
  case None
  then show ?thesis by (simp add: segments_memory_get_def Memory_get_def)
next
  case (Some w)
  assume wf: "well_formed vm" and le: "nextRef vm \<le> ref a"
  from wf Some have "ref a < nextRef vm"
    unfolding well_formed_def heap_below_def by blast
  with le show ?thesis by simp
qed

lemma well_formed_reads:
  assumes "well_formed vm"
    and "computeAddress (nextRef vm) (runContext vm) reg off = Inr dstAddr"
    and "computeAddress (nextRef vm + 1) (runContext vm) reg0 off0 = Inr op0Addr"
    and "computeOp1Address (nextRef vm + 2) (runContext vm) src off1 o0 = Inr op1Addr"
  shows "segments_memory_get dstAddr (segments vm) = None \<and>
         segments_memory_get op0Addr (segments vm) = None \<and>
         segments_memory_get op1Addr (segments vm) = None"
  using assms computeAddress_ref [OF assms(2)] computeAddress_ref [OF assms(3)]
    computeOp1Address_ref [OF assms(4)]
  by (simp add: well_formed_read_None)

lemma Felt_new_ref: "Felt_new r x = Inr f \<Longrightarrow> ref f = r"
  by (auto simp: Felt_new_def split: if_splits)

lemma word_arith_ref:
  "word_add r a b = Inr v \<Longrightarrow> ref_of v = r"
  "word_sub r a b = Inr v \<Longrightarrow> ref_of v = r"
  "word_mul r a b = Inr v \<Longrightarrow> ref_of v = r"
  "word_div r a b = Inr v \<Longrightarrow> ref_of v = r"
  by (cases a; cases b;
      auto simp: Felt_add_def Felt_sub_def Felt_mul_def Felt_div_def Felt_new_def Let_def
        Relocatable_add_def Relocatable_sub_def split: if_splits)+

lemma heap_below_mono: "heap_below n m \<Longrightarrow> n \<le> n' \<Longrightarrow> heap_below n' m"
  by (fastforce simp: heap_below_def)

lemma heap_below_read:
  "heap_below n m \<Longrightarrow> segments_memory_get a m = Some v \<Longrightarrow> ref_of v < n"
  by (auto simp: heap_below_def segments_memory_get_def Memory_get_def split: option.splits)

lemma insert_deduced_below:
  "heap_below n m \<Longrightarrow> ref a < n \<Longrightarrow> (\<forall>v. w = Some v \<longrightarrow> ref_of v < n) \<Longrightarrow>
   heap_below n (insert_deduced a w m)"
  by (auto simp: heap_below_def insert_deduced_def Memory_insert_def
      split: option.splits if_splits)

lemma deduceOp0_refs:
  "deduceOp0 r rc i d o1 = Inr (v, rd) \<Longrightarrow>
   (\<forall>x. v = Some x \<longrightarrow> ref_of x = r) \<and> (rd = None \<or> rd = d)"
  by (auto simp: deduceOp0_def Relocatable_add_def Let_def
      split: Opcode.splits ResLogic.splits option.splits sum.splits dest: word_arith_ref)

lemma deduceOp1_refs:
  "deduceOp1 r i d o0 = Inr (v, rd) \<Longrightarrow>
   (v = d \<or> (\<forall>x. v = Some x \<longrightarrow> ref_of x = r)) \<and> (rd = None \<or> rd = d)"
  by (auto simp: deduceOp1_def
      split: if_splits ResLogic.splits option.splits sum.splits dest: word_arith_ref)

lemma map_sum_Inr: "map_sum f g x = Inr v \<Longrightarrow> \<exists>y. x = Inr y \<and> v = g y"
  by (cases x) auto

lemma computeRes_refs:
  "computeRes r i o0 o1 = Inr v \<Longrightarrow> v = o1 \<or> (\<forall>x. v = Some x \<longrightarrow> ref_of x = r)"
  by (cases "resLogic i")
     (auto simp: computeRes_def split: option.splits dest!: map_sum_Inr dest: word_arith_ref)

lemma op0_block_below:
  "computeOperands_op0 r rc i d o0 o1 a m = Inr (m1, res1) \<Longrightarrow>
   heap_below n m \<Longrightarrow> ref a < n \<Longrightarrow> r < n \<Longrightarrow> (\<forall>v. d = Some v \<longrightarrow> ref_of v < n) \<Longrightarrow>
   heap_below n m1 \<and> (\<forall>v. res1 = Some v \<longrightarrow> ref_of v < n)"
  by (auto simp: computeOperands_op0_def split: if_splits sum.splits prod.splits
      dest!: deduceOp0_refs intro!: insert_deduced_below)

lemma op1_block_below:
  "computeOperands_op1 r i d o0 o1 a m res1 = Inr (m2, res2) \<Longrightarrow>
   heap_below n m \<Longrightarrow> ref a < n \<Longrightarrow> r < n \<Longrightarrow> (\<forall>v. d = Some v \<longrightarrow> ref_of v < n) \<Longrightarrow>
   (\<forall>v. res1 = Some v \<longrightarrow> ref_of v < n) \<Longrightarrow>
   heap_below n m2 \<and> (\<forall>v. res2 = Some v \<longrightarrow> ref_of v < n)"
  by (auto simp: computeOperands_op1_def split: if_splits sum.splits prod.splits
      dest!: deduceOp1_refs intro!: insert_deduced_below)

lemma res_block_below:
  "computeOperands_res r i o0 o1 res2 = Inr res3 \<Longrightarrow> r < n \<Longrightarrow>
   (\<forall>v. o1 = Some v \<longrightarrow> ref_of v < n) \<Longrightarrow> (\<forall>v. res2 = Some v \<longrightarrow> ref_of v < n) \<Longrightarrow>
   (\<forall>v. res3 = Some v \<longrightarrow> ref_of v < n)"
  by (auto simp: computeOperands_res_def split: if_splits dest!: computeRes_refs)

lemma dst_block_below:
  "computeOperands_dst rc i d a m res3 = Inr (m3, dst1) \<Longrightarrow>
   heap_below n m \<Longrightarrow> ref a < n \<Longrightarrow> ref (fp rc) < n \<Longrightarrow>
   (\<forall>v. res3 = Some v \<longrightarrow> ref_of v < n) \<Longrightarrow>
   heap_below n m3"
  by (auto simp: computeOperands_dst_def deduceDst_def
      split: if_splits sum.splits Opcode.splits intro!: insert_deduced_below)

lemma computeOperands_well_formed:
  assumes wf: "well_formed vm"
  shows "well_formed (snd (computeOperands i vm))"
proof -
  define r where "r = nextRef vm"
  define rc where "rc = runContext vm"
  define m where "m = segments vm"
  define n where "n = r + 6"
  note defs = computeOperands_def Let_def r_def [symmetric] rc_def [symmetric]
    m_def [symmetric]
  from wf have regs: "ref (pc rc) < n" "ref (ap rc) < n" "ref (fp rc) < n"
    and hm: "heap_below n m"
    by (auto simp: well_formed_def r_def rc_def m_def n_def intro: heap_below_mono)
  have fin: "\<And>mX. heap_below n mX \<Longrightarrow> well_formed (vm\<lparr>nextRef := r + 6, segments := mX\<rparr>)"
    using regs by (simp add: well_formed_def rc_def n_def)
  have fin0: "well_formed (vm\<lparr>nextRef := r + 6\<rparr>)"
    using fin [OF hm] by (simp add: m_def)
  show ?thesis
  proof (cases "computeAddress r rc (dstReg i) (offDst i)")
    case Inl
    then show ?thesis using fin0 by (simp add: defs)
  next
    case dA: (Inr dstAddr)
    show ?thesis
    proof (cases "computeAddress (r + 1) rc (op0Reg i) (offOp0 i)")
      case Inl
      with dA show ?thesis using fin0 by (simp add: defs)
    next
      case oA: (Inr op0Addr)
      show ?thesis
      proof (cases "computeOp1Address (r + 2) rc (op1Src i) (offOp1 i)
                      (segments_memory_get op0Addr m)")
        case Inl
        with dA oA show ?thesis using fin0 by (simp add: defs)
      next
        case pA: (Inr op1Addr)
        define d0 where "d0 = segments_memory_get dstAddr m"
        define o0 where "o0 = segments_memory_get op0Addr m"
        define o1 where "o1 = segments_memory_get op1Addr m"
        note rd = d0_def [symmetric] o0_def [symmetric] o1_def [symmetric]
        have refs: "ref dstAddr < n" "ref op0Addr < n" "ref op1Addr < n"
          using computeAddress_ref [OF dA] computeAddress_ref [OF oA]
            computeOp1Address_ref [OF pA] by (simp_all add: n_def)
        have reads: "\<forall>v. d0 = Some v \<longrightarrow> ref_of v < n" "\<forall>v. o1 = Some v \<longrightarrow> ref_of v < n"
          using heap_below_read [OF hm] by (auto simp: d0_def o1_def)
        show ?thesis
        proof (cases "computeOperands_op0 (r + 3) rc i d0 o0 o1 op0Addr m")
          case Inl
          with dA oA pA show ?thesis using fin0 by (simp add: defs rd)
        next
          case (Inr p0)
          then obtain m1 res1 where
            b0: "computeOperands_op0 (r + 3) rc i d0 o0 o1 op0Addr m = Inr (m1, res1)"
            by (cases p0) simp
          from op0_block_below [OF b0 hm refs(2) _ reads(1)]
          have h1: "heap_below n m1" "\<forall>v. res1 = Some v \<longrightarrow> ref_of v < n"
            by (simp_all add: n_def)
          show ?thesis
          proof (cases "computeOperands_op1 (r + 4) i d0 o0 o1 op1Addr m1 res1")
            case Inl
            with dA oA pA b0 show ?thesis using fin [OF h1(1)] by (simp add: defs rd)
          next
            case (Inr p1)
            then obtain m2 res2 where
              b1: "computeOperands_op1 (r + 4) i d0 o0 o1 op1Addr m1 res1 = Inr (m2, res2)"
              by (cases p1) simp
            from op1_block_below [OF b1 h1(1) refs(3) _ reads(1) h1(2)]
            have h2: "heap_below n m2" "\<forall>v. res2 = Some v \<longrightarrow> ref_of v < n"
              by (simp_all add: n_def)
            show ?thesis
            proof (cases "computeOperands_res (r + 5) i o0 o1 res2")
              case Inl
              with dA oA pA b0 b1 show ?thesis using fin [OF h2(1)] by (simp add: defs rd)
            next
              case b2: (Inr res3)
              from res_block_below [OF b2 _ reads(2) h2(2)]
              have h3: "\<forall>v. res3 = Some v \<longrightarrow> ref_of v < n" by (simp add: n_def)
              show ?thesis
              proof (cases "computeOperands_dst rc i d0 dstAddr m2 res3")
                case Inl
                with dA oA pA b0 b1 b2 show ?thesis
                  using fin [OF h2(1)] by (simp add: defs rd)
              next
                case (Inr p3)
                then obtain m3 dst1 where
                  b3: "computeOperands_dst rc i d0 dstAddr m2 res3 = Inr (m3, dst1)"
                  by (cases p3) simp
                from dst_block_below [OF b3 h2(1) refs(1) regs(3) h3]
                have "heap_below n m3" .
                with dA oA pA b0 b1 b2 b3 show ?thesis
                  using fin by (simp add: defs rd)
              qed
            qed
          qed
        qed
      qed
    qed
  qed
qed





text \<open>
  Claim C6 fails on the code: \<^verbatim>\<open>computeRes\<close> is called whenever \<^verbatim>\<open>res\<close> is
  undefined. On a new machine the instruction \<^verbatim>\<open>NoOp\<close> with res_logic Add leaves op0
  and op1 undefined and the sum is taken on them; with \<^verbatim>\<open>Call\<close> and res_logic Mul op0
  has just been deduced, but the local \<^verbatim>\<open>op0\<close> is still undefined when the product is
  taken. Both calls end in the TypeError of a method call on \<^verbatim>\<open>undefined\<close>.
\<close>

theorem C6_computeRes_on_undefined_operands:
  "fst (computeOperands (example_instruction\<lparr>resLogic := ResLogic.Add\<rparr>)
         VirtualMachine_new) = Inl JsTypeError \<and>
   fst (computeOperands (example_instruction\<lparr>resLogic := ResLogic.Mul, opcode := Opcode.Call\<rparr>)
         VirtualMachine_new) = Inl JsTypeError"
  by (simp add: eval_defs)

text \<open>
  Claim C10: the result of \<^verbatim>\<open>computeOperands\<close> does not depend on whether the
  write-backs succeed: it is the same on the machine whose memory has no segment, where
  every \<^verbatim>\<open>insert\<close> fails. On a new machine the instruction \<^verbatim>\<open>Call\<close> deduces op0
  and dst, both inserts fail with \<^verbatim>\<open>SegmentError\<close>, the memory stays empty, and the
  resolution returns successfully.
\<close>

theorem C10_write_back_result_discarded:
  "fst (computeOperands i (vm\<lparr>segments := (segments vm)\<lparr>numSegments := 0\<rparr>\<rparr>))
     = fst (computeOperands i vm) \<and>
   Memory_insert \<lparr>ref = 4, segmentIndex = 1, offset = 1\<rparr>
     (RelocW \<lparr>ref = 6, segmentIndex = 0, offset = 1\<rparr>) (segments VirtualMachine_new)
     = Inl SegmentError \<and>
   Memory_insert \<lparr>ref = 3, segmentIndex = 1, offset = 0\<rparr>
     (RelocW (fp RunContext_default)) (segments VirtualMachine_new)
     = Inl SegmentError \<and>
   computeOperands (example_instruction\<lparr>opcode := Opcode.Call\<rparr>) VirtualMachine_new
     = (Inr \<lparr>op0 = None, op1 = None, res = None, dst = Some (RelocW (fp RunContext_default))\<rparr>,
        VirtualMachine_new\<lparr>nextRef := 9\<rparr>)"
proof (intro conjI)
  show "fst (computeOperands i (vm\<lparr>segments := (segments vm)\<lparr>numSegments := 0\<rparr>\<rparr>))
     = fst (computeOperands i vm)"
    by (rule computeOperands_result_numSegments)
qed (simp_all add: eval_defs)

end
